theory Spec2Isabelle
  imports Main
begin

section \<open>JavaScript values\<close>

text \<open>
  The sources are JavaScript. A value is one of the primitives or an object; the type
  parameter is the kind of object a variable is meant to hold (a Licence, an Api, an
  options object). Numbers are the integer-valued ones and NaN. A character of a string
  is one code unit below 256.
\<close>

datatype 'o jsval =
    JUndefined
  | JNull
  | JBool bool
  | JNum int
  | JNaN
  | JStr string
  | JObj 'o

text \<open>What \<open>if( v )\<close>, \<open>!v\<close> and \<open>v || w\<close> test.\<close>

fun truthy :: "'o jsval \<Rightarrow> bool" where
  "truthy JUndefined = False"
| "truthy JNull = False"
| "truthy (JBool b) = b"
| "truthy (JNum n) = (n \<noteq> 0)"
| "truthy JNaN = False"
| "truthy (JStr s) = (s \<noteq> [])"
| "truthy (JObj x) = True"

definition js_or :: "'o jsval \<Rightarrow> 'o jsval \<Rightarrow> 'o jsval" where
  "js_or v w = (if truthy v then v else w)"

definition js_not :: "'o jsval \<Rightarrow> 'o jsval" where
  "js_not v = JBool (\<not> truthy v)"

text \<open>
  \<open>v === w\<close>: values of different types are never equal, NaN equals nothing, and an
  object equals itself only.
\<close>

fun strict_eq :: "'o jsval \<Rightarrow> 'o jsval \<Rightarrow> bool" where
  "strict_eq JUndefined JUndefined = True"
| "strict_eq JNull JNull = True"
| "strict_eq (JBool a) (JBool b) = (a = b)"
| "strict_eq (JNum a) (JNum b) = (a = b)"
| "strict_eq (JStr a) (JStr b) = (a = b)"
| "strict_eq (JObj a) (JObj b) = (a = b)"
| "strict_eq v w = False"

text \<open>Decimal digits of a natural number, as string concatenation writes a number.\<close>

fun string_of_nat :: "nat \<Rightarrow> string" where
  "string_of_nat n =
     (if n < 10 then [''0123456789'' ! n]
      else string_of_nat (n div 10) @ [''0123456789'' ! (n mod 10)])"

declare string_of_nat.simps [simp del]

text \<open>
  The text that \<open>'...' + v\<close> appends for a value. A plain object prints as
  \<open>[object Object]\<close>; integers are printed in decimal, as JavaScript does below
  \<open>10^21\<close>.
\<close>

fun ToString :: "unit jsval \<Rightarrow> string" where
  "ToString JUndefined = ''undefined''"
| "ToString JNull = ''null''"
| "ToString (JBool b) = (if b then ''true'' else ''false'')"
| "ToString (JNum n) = (if n < 0 then CHR ''-'' # string_of_nat (nat (- n)) else string_of_nat (nat n))"
| "ToString JNaN = ''NaN''"
| "ToString (JStr s) = s"
| "ToString (JObj u) = ''[object Object]''"

section \<open>Regular expressions\<close>

text \<open>
  The licence registry gives every licence a regular expression. The constructs that
  occur there: literal characters, \<open>.\<close>, a negated one-character class, sequence,
  alternative, \<open>*\<close>, and the assertions \<open>^\<close>, \<open>$\<close> and \<open>\b\<close>.
\<close>

datatype rx =
    Empty
  | Ch char
  | Dot
  | NotCh char
  | Seq rx rx
  | Alt rx rx
  | Star rx
  | Bol
  | Eol
  | WordB

definition opt :: "rx \<Rightarrow> rx" where
  "opt r = Alt r Empty"

definition many1 :: "rx \<Rightarrow> rx" where
  "many1 r = Seq r (Star r)"

definition str :: "string \<Rightarrow> rx" where
  "str s = foldr (\<lambda>c r. Seq (Ch c) r) s Empty"

definition seq :: "rx list \<Rightarrow> rx" where
  "seq rs = foldr Seq rs Empty"

text \<open>
  With the flag \<open>i\<close> two characters are compared after canonicalisation, which for the
  ASCII characters of the registry's patterns is the upper-case letter.
\<close>

definition upper :: "char \<Rightarrow> char" where
  "upper c =
     (if 97 \<le> (of_char c :: nat) \<and> (of_char c :: nat) \<le> 122
      then char_of ((of_char c :: nat) - 32) else c)"

definition same_char :: "bool \<Rightarrow> char \<Rightarrow> char \<Rightarrow> bool" where
  "same_char i a c = (if i then upper a = upper c else a = c)"

definition line_terminator :: "char \<Rightarrow> bool" where
  "line_terminator c = ((of_char c :: nat) = 10 \<or> (of_char c :: nat) = 13)"

definition word_char :: "char \<Rightarrow> bool" where
  "word_char c =
     (let n = (of_char c :: nat) in
        (48 \<le> n \<and> n \<le> 57) \<or> (65 \<le> n \<and> n \<le> 90) \<or> n = 95 \<or> (97 \<le> n \<and> n \<le> 122))"

fun is_word :: "char option \<Rightarrow> bool" where
  "is_word None = False"
| "is_word (Some c) = word_char c"

fun next_char :: "string \<Rightarrow> char option" where
  "next_char [] = None"
| "next_char (c # cs) = Some c"

text \<open>
  A position in the input is the character before it (none at the start) and the rest of
  the input. \<open>rmatch i r p\<close> lists the positions at which a match of \<open>r\<close> that starts
  at \<open>p\<close> can end; an iteration of \<open>*\<close> that consumes nothing is not repeated.
\<close>

type_synonym pos = "char option \<times> string"

fun rmatch :: "bool \<Rightarrow> rx \<Rightarrow> pos \<Rightarrow> pos list" where
  "rmatch i Empty p = [p]"
| "rmatch i (Ch a) (q, s) =
     (case s of [] \<Rightarrow> [] | c # cs \<Rightarrow> if same_char i a c then [(Some c, cs)] else [])"
| "rmatch i Dot (q, s) =
     (case s of [] \<Rightarrow> [] | c # cs \<Rightarrow> if line_terminator c then [] else [(Some c, cs)])"
| "rmatch i (NotCh a) (q, s) =
     (case s of [] \<Rightarrow> [] | c # cs \<Rightarrow> if same_char i a c then [] else [(Some c, cs)])"
| "rmatch i (Seq a b) p = concat (map (rmatch i b) (rmatch i a p))"
| "rmatch i (Alt a b) p = rmatch i a p @ rmatch i b p"
| "rmatch i (Star a) p =
     p # concat (map (rmatch i (Star a))
                     (filter (\<lambda>p'. length (snd p') < length (snd p)) (rmatch i a p)))"
| "rmatch i Bol (q, s) = (if q = None then [(q, s)] else [])"
| "rmatch i Eol (q, s) = (if s = [] then [(q, s)] else [])"
| "rmatch i WordB (q, s) = (if is_word q \<noteq> is_word (next_char s) then [(q, s)] else [])"

text \<open>\<open>regExp.test( s )\<close>: the expression matches from some position of \<open>s\<close>.\<close>

fun search :: "bool \<Rightarrow> rx \<Rightarrow> char option \<Rightarrow> string \<Rightarrow> bool" where
  "search i r q [] = (rmatch i r (q, []) \<noteq> [])"
| "search i r q (c # cs) = (rmatch i r (q, c # cs) \<noteq> [] \<or> search i r (Some c) cs)"

definition test :: "bool \<Rightarrow> rx \<Rightarrow> string \<Rightarrow> bool" where
  "test i r s = search i r None s"

section \<open>Licences and the licence registry\<close>

text \<open>
  The fourth argument of \<open>new Licence\<close> is a regular expression with its flag \<open>i\<close>, or,
  for the licence \<open>unknown\<close>, the empty text.
\<close>

datatype pattern = RegExp rx bool | Text string

text \<open>
  Modelled from the spec: the class Licence (\<open>app/Licence\<close>) is not among the sources.
  A licence is immutable and has an id, a set of group tags, a display name, a match
  pattern and an optional URL.
\<close>

record licence =
  lic_id :: string
  lic_groups :: "string list"
  lic_name :: string
  lic_regExp :: pattern
  lic_url :: "string option"

definition Licence :: "string \<Rightarrow> string list \<Rightarrow> string \<Rightarrow> pattern \<Rightarrow> string option \<Rightarrow> licence" where
  "Licence i gs n p u = \<lparr>lic_id = i, lic_groups = gs, lic_name = n, lic_regExp = p, lic_url = u\<rparr>"

text \<open>
  Modelled from the spec: \<open>isInGroup\<close> tests membership in the licence's groups.
\<close>

definition isInGroup :: "licence \<Rightarrow> string \<Rightarrow> bool" where
  "isInGroup l g = (g \<in> set (lic_groups l))"

text \<open>
  Modelled from the spec: the match rule of a licence. A regular expression is tested
  against the licence-template string; the pattern of the licence \<open>unknown\<close> accepts
  every string.
\<close>

fun accepts :: "pattern \<Rightarrow> string \<Rightarrow> bool" where
  "accepts (RegExp r i) s = test i r s"
| "accepts (Text t) s = True"

definition match :: "licence \<Rightarrow> string \<Rightarrow> bool" where
  "match l s = accepts (lic_regExp l) s"

text \<open>
  The registry (\<open>src/unnamed/part_001\<close>, lines 13 to 31), in the order of the source. Its
  comment: the licence is detected by order, only the first one featured in this list is
  detected. \<open>sep\<close> is the group \<open>(-|\/)\<close> and \<open>tail\<close> the group
  \<open>(([^\-]+.+|-migrated)*)?\<close> of the patterns.
\<close>

definition sep :: rx where
  "sep = Alt (Ch CHR ''-'') (Ch CHR ''/'')"

definition tail :: rx where
  "tail = opt (Star (Alt (Seq (many1 (NotCh CHR ''-'')) (many1 Dot)) (str ''-migrated'')))"

definition LICENCES :: "licence list" where
  "LICENCES = [
     Licence ''PD'' [''pd''] ''Public Domain''
       (RegExp (seq [Bol, opt (str ''Bild-''), Alt (str ''PD'') (str ''Public domain''), WordB]) True)
       None,

     Licence ''cc-zero'' [''cc'', ''cc0''] ''CC0 1.0''
       (RegExp (seq [Bol, Alt (str ''cc-zero'') (str ''Bild-CC-0'')]) True)
       (Some ''http://creativecommons.org/publicdomain/zero/1.0/legalcode/''),

     Licence ''cc-by-2.0-de'' [''cc'', ''cc2'', ''cc2de'', ''ccby''] ''CC BY 2.0 DE''
       (RegExp (seq [Bol, str ''CC-BY'', sep, Ch CHR ''2'', Dot, Ch CHR ''0'', sep, str ''DE'']) True)
       (Some ''http://creativecommons.org/licenses/by/2.0/de/legalcode/''),
     Licence ''cc-by-3.0-de'' [''cc'', ''cc3'', ''ccby''] ''CC BY 3.0 DE''
       (RegExp (seq [Bol, str ''CC-BY'', sep, Ch CHR ''3'', Dot, Ch CHR ''0'', sep, str ''DE'']) True)
       (Some ''http://creativecommons.org/licenses/by/3.0/de/legalcode/''),
     Licence ''cc-by-3.0'' [''cc'', ''cc3'', ''ccby''] ''CC BY 3.0''
       (RegExp (seq [Bol, str ''CC-BY-3'', Dot, Ch CHR ''0'', tail, Eol]) True)
       (Some ''http://creativecommons.org/licenses/by/3.0/legalcode/''),
     Licence ''cc-by-4.0'' [''cc'', ''cc4'', ''ccby''] ''CC BY 4.0''
       (RegExp (seq [Bol, str ''CC-BY-4'', Dot, Ch CHR ''0'', tail, Eol]) True)
       (Some ''http://creativecommons.org/licenses/by/4.0/legalcode/''),

     Licence ''cc-by-sa-2.0-de'' [''cc'', ''cc2'', ''cc2de''] ''CC BY-SA 2.0 DE''
       (RegExp (seq [Bol, opt (str ''Bild-''), str ''CC-BY-SA'', sep, Ch CHR ''2'', Dot, Ch CHR ''0'',
                     sep, str ''DE'']) True)
       (Some ''http://creativecommons.org/licenses/by-sa/2.0/de/legalcode/''),
     Licence ''cc-by-sa-3.0-de'' [''cc'', ''cc3''] ''CC BY-SA 3.0 DE''
       (RegExp (seq [Bol, opt (str ''Bild-''), str ''CC-BY-SA'', sep, Ch CHR ''3'', Dot, Ch CHR ''0'',
                     sep, str ''DE'']) True)
       (Some ''http://creativecommons.org/licenses/by-sa/3.0/de/legalcode/''),
     Licence ''cc-by-sa-3.0'' [''cc'', ''cc3''] ''CC BY-SA 3.0''
       (RegExp (seq [Bol, opt (str ''Bild-''), str ''CC-BY-SA'', sep, Ch CHR ''3'', Dot, Ch CHR ''0'',
                     tail, Eol]) True)
       (Some ''http://creativecommons.org/licenses/by-sa/3.0/legalcode/''),
     Licence ''cc-by-sa-4.0'' [''cc'', ''cc4''] ''CC BY-SA 4.0''
       (RegExp (seq [Bol, opt (str ''Bild-''), str ''CC-BY-SA'', sep, Ch CHR ''4'', Dot, Ch CHR ''0'',
                     tail, Eol]) True)
       (Some ''http://creativecommons.org/licenses/by-sa/4.0/legalcode/''),

     Licence ''cc'' [''unsupported''] ''CC'' (RegExp (str ''CC-BY'') True) None,

     Licence ''unknown'' [''unknown''] ''Unknown'' (Text '''') (Some '''')
   ]"

text \<open>
  Modelled from the spec: the lookup \<open>find\<close> of the licence registry is not among the
  sources. It iterates the ordered licence list and returns the first entry whose match
  rule accepts the input; if none matches, it returns the licence \<open>unknown\<close>, the last
  entry of the list.
\<close>

fun first_match :: "licence list \<Rightarrow> string \<Rightarrow> licence option" where
  "first_match [] s = None"
| "first_match (l # ls) s = (if match l s then Some l else first_match ls s)"

definition find_licence :: "string \<Rightarrow> licence" where
  "find_licence s = (case first_match LICENCES s of Some l \<Rightarrow> l | None \<Rightarrow> last LICENCES)"

section \<open>The asset of the questionnaire\<close>

text \<open>
  The class Asset of \<open>src/unnamed/part_000\<close>.
\<close>

text \<open>
  An operation that can throw returns the error as a value. \<open>InitError\<close> is the
  \<open>Error( 'No proper initialization parameters specified' )\<close> of the constructor;
  \<open>TypeError\<close> is what JavaScript throws when a property of \<open>null\<close> or \<open>undefined\<close> is
  read or a value that is no function is called.
\<close>

datatype error = InitError | TypeError

text \<open>An Author object stands as the text that \<open>join\<close> obtains from it.\<close>

type_synonym author = string

text \<open>The object \<open>optionalAttributes\<close>: each property is present or not.\<close>

record attributes =
  attr_authors :: "author list option"
  attr_attribution :: "string option"

text \<open>
  The class Api is not among the sources; of an Api object the asset uses
  \<open>getDefaultUrl()\<close>, whose result is a field here, and \<open>getImageInfo\<close>, whose request
  is an answer of \<open>getImageInfo\<close> below.
\<close>

record api =
  getDefaultUrl :: "unit jsval"

text \<open>
  The fields of an Asset object. The prototype gives each the value \<open>null\<close>. The type
  parameter is the type of the image information objects that the API delivers.
\<close>

record 'i asset =
  a_prefixedFilename :: "unit jsval"
  a_title :: "unit jsval"
  a_mediaType :: "unit jsval"
  a_licence :: "licence jsval"
  a_api :: "api jsval"
  a_authors :: "author list option"
  a_attribution :: "string option"
  a_imageInfo :: "(nat \<rightharpoonup> 'i) option"
  a_wikiUrl :: "unit jsval"

definition Asset_prototype :: "'i asset" where
  "Asset_prototype =
     \<lparr>a_prefixedFilename = JNull, a_title = JNull, a_mediaType = JNull, a_licence = JNull,
      a_api = JNull, a_authors = None, a_attribution = None, a_imageInfo = None,
      a_wikiUrl = JNull\<rparr>"

fun prop_authors :: "attributes jsval \<Rightarrow> author list option" where
  "prop_authors (JObj x) = attr_authors x"
| "prop_authors v = None"

fun prop_attribution :: "attributes jsval \<Rightarrow> string option" where
  "prop_attribution (JObj x) = attr_attribution x"
| "prop_attribution v = None"

fun is_string :: "'o jsval \<Rightarrow> bool" where
  "is_string (JStr s) = True"
| "is_string v = False"

fun as_url :: "attributes jsval \<Rightarrow> unit jsval" where
  "as_url (JStr s) = JStr s"
| "as_url v = JUndefined"

text \<open>
  The constructor (lines 20 to 47), applied to the new object \<open>this\<close>. It returns the
  error thrown, if any, and the object as the constructor leaves it. When
  \<open>optionalAttributes\<close> is a text it is taken as the wiki URL.
\<close>

definition Asset ::
  "'i asset \<Rightarrow> unit jsval \<Rightarrow> unit jsval \<Rightarrow> unit jsval \<Rightarrow> licence jsval \<Rightarrow> api jsval \<Rightarrow>
   attributes jsval \<Rightarrow> unit jsval \<Rightarrow> error option \<times> 'i asset" where
  "Asset this prefixedFilename title mediaType licence api optionalAttributes wikiUrl =
     (if \<not> truthy prefixedFilename \<or> \<not> truthy title \<or> \<not> truthy mediaType
         \<or> (\<not> truthy licence \<and> \<not> strict_eq licence JNull) \<or> \<not> truthy api
      then (Some InitError, this)
      else
        let this1 = this\<lparr>a_prefixedFilename := prefixedFilename, a_title := title,
                         a_mediaType := mediaType, a_licence := licence, a_api := api,
                         a_wikiUrl := js_or wikiUrl JNull\<rparr>;
            wikiUrl1 = (if is_string optionalAttributes then as_url optionalAttributes else wikiUrl);
            optionalAttributes1 = (if is_string optionalAttributes then JNull else optionalAttributes);
            optionalAttributes2 =
              js_or optionalAttributes1 (JObj \<lparr>attr_authors = None, attr_attribution = None\<rparr>);
            this2 = this1\<lparr>a_authors :=
                             Some (case prop_authors optionalAttributes2 of Some xs \<Rightarrow> xs | None \<Rightarrow> []),
                           a_attribution := prop_attribution optionalAttributes2\<rparr>
        in if truthy wikiUrl1
           then (None, this2\<lparr>a_wikiUrl := wikiUrl1, a_imageInfo := Some Map.empty\<rparr>)
           else (case api of
                   JObj ap \<Rightarrow> (None, this2\<lparr>a_wikiUrl := getDefaultUrl ap, a_imageInfo := Some Map.empty\<rparr>)
                 | _ \<Rightarrow> (Some TypeError, this2)))"

definition getWikiUrl :: "'i asset \<Rightarrow> unit jsval" where
  "getWikiUrl this = a_wikiUrl this"

definition getUrl :: "'i asset \<Rightarrow> string" where
  "getUrl this = ''http:'' @ ToString (a_wikiUrl this) @ ''wiki/'' @ ToString (a_prefixedFilename this)"

definition getTitle :: "'i asset \<Rightarrow> unit jsval" where
  "getTitle this = a_title this"

definition getMediaType :: "'i asset \<Rightarrow> unit jsval" where
  "getMediaType this = a_mediaType this"

definition getLicence :: "'i asset \<Rightarrow> licence jsval" where
  "getLicence this = a_licence this"

text \<open>
  \<open>getAuthors\<close> (lines 142 to 150) returns the field \<open>_authors\<close> or a text. Its
  argument is the options object or a value that is none.
\<close>

datatype authors_result = AuthorsArray "author list option" | AuthorsText string

record options =
  format :: "unit jsval"

fun prop_format :: "options jsval \<Rightarrow> unit jsval" where
  "prop_format (JObj x) = format x"
| "prop_format v = JUndefined"

fun join :: "string \<Rightarrow> string list \<Rightarrow> string" where
  "join s [] = []"
| "join s [x] = x"
| "join s (x # y # ys) = x @ s @ join s (y # ys)"

definition getAuthors :: "'i asset \<Rightarrow> options jsval \<Rightarrow> error + authors_result" where
  "getAuthors this options =
     (let options1 = js_or options (JObj \<lparr>format = JUndefined\<rparr>)
      in if \<not> strict_eq (js_not (prop_format options1)) (JStr ''string'')
         then Inr (AuthorsArray (a_authors this))
         else (case a_authors this of
                 None \<Rightarrow> Inl TypeError
               | Some xs \<Rightarrow> Inr (AuthorsText (join ''; '' xs))))"

definition setAuthors :: "'i asset \<Rightarrow> author list option \<Rightarrow> 'i asset" where
  "setAuthors this authors = this\<lparr>a_authors := authors\<rparr>"

definition getAttribution :: "'i asset \<Rightarrow> string option" where
  "getAttribution this = a_attribution this"

text \<open>
  \<open>getImageInfo\<close> (lines 176 to 194) returns a promise. At once the call either resolves it with the
  cached object or sends a request to the API; the promise is settled by the callbacks
  \<open>done\<close> and \<open>fail\<close> when the API answers. An image information object is an object,
  so the test \<open>if( this._imageInfo[imageSize] )\<close> asks whether the entry is there.
\<close>

record request =
  rq_filename :: "unit jsval"
  rq_size :: nat
  rq_wikiUrl :: "unit jsval"

datatype 'i answer = Resolve 'i | Request request

definition getImageInfo :: "'i asset \<Rightarrow> nat \<Rightarrow> error + 'i answer" where
  "getImageInfo this imageSize =
     (case a_imageInfo this of
        None \<Rightarrow> Inl TypeError
      | Some m \<Rightarrow>
          (case m imageSize of
             Some info \<Rightarrow> Inr (Resolve info)
           | None \<Rightarrow>
               (case a_api this of
                  JObj ap \<Rightarrow> Inr (Request \<lparr>rq_filename = a_prefixedFilename this, rq_size = imageSize,
                                            rq_wikiUrl = a_wikiUrl this\<rparr>)
                | _ \<Rightarrow> Inl TypeError)))"

text \<open>
  The callback \<open>done\<close> of the request for \<open>imageSize\<close>: it stores the object and
  resolves the promise with it. The callback \<open>fail\<close> rejects the promise and stores
  nothing.
\<close>

datatype ('i, 'e) settled = Resolved 'i | Rejected 'e

definition getImageInfo_done :: "'i asset \<Rightarrow> nat \<Rightarrow> 'i \<Rightarrow> error + 'i asset \<times> ('i, 'e) settled" where
  "getImageInfo_done this imageSize imageInfo =
     (case a_imageInfo this of
        None \<Rightarrow> Inl TypeError
      | Some m \<Rightarrow> Inr (this\<lparr>a_imageInfo := Some (m(imageSize \<mapsto> imageInfo))\<rparr>, Resolved imageInfo))"

definition getImageInfo_fail :: "'i asset \<Rightarrow> nat \<Rightarrow> 'e \<Rightarrow> 'i asset \<times> ('i, 'e) settled" where
  "getImageInfo_fail this imageSize err = (this, Rejected err)"

text \<open>
  What happens to an asset over time: calls of \<open>getImageInfo\<close> and answers of the API,
  in any order. \<open>run\<close> gives the asset after a sequence of them.
\<close>

datatype ('i, 'e) event = Call nat | Done nat 'i | Fail nat 'e

fun step :: "'i asset \<Rightarrow> ('i, 'e) event \<Rightarrow> 'i asset" where
  "step this (Call n) = this"
| "step this (Done n info) =
     (case (getImageInfo_done this n info :: error + 'i asset \<times> ('i, 'e) settled) of
        Inl e \<Rightarrow> this
      | Inr (this1, r) \<Rightarrow> this1)"
| "step this (Fail n err) = fst (getImageInfo_fail this n err)"

definition run :: "'i asset \<Rightarrow> ('i, 'e) event list \<Rightarrow> 'i asset" where
  "run this evs = foldl step this evs"

text \<open>The entry of the cache for a size, if there is one.\<close>

definition cached :: "'i asset \<Rightarrow> nat \<Rightarrow> 'i option" where
  "cached this n = (case a_imageInfo this of None \<Rightarrow> None | Some m \<Rightarrow> m n)"

text \<open>An answer of the API for size \<open>n\<close> that stores an object.\<close>

fun stores :: "nat \<Rightarrow> ('i, 'e) event \<Rightarrow> bool" where
  "stores n (Done k info) = (k = n)"
| "stores n e = False"

section \<open>The asset of the application module\<close>

text \<open>
  The class Asset of \<open>src/app/Asset.js\<close>: an asset with a title and optional attributes.
  Its \<open>getAuthors\<close> (lines 79 to 87) has the same body as the one above.
\<close>

record app_attributes =
  at_descriptions :: "(string \<rightharpoonup> string) option"
  at_authors :: "string list option"
  at_source :: "string option"
  at_attribution :: "string option"

record app_asset =
  app_title :: "unit jsval"
  app_descriptions :: "(string \<rightharpoonup> string) option"
  app_authors :: "string list option"
  app_source :: "string option"
  app_attribution :: "string option"

definition app_Asset :: "unit jsval \<Rightarrow> app_attributes jsval \<Rightarrow> app_asset" where
  "app_Asset title attributes =
     (let attributes1 =
            js_or attributes (JObj \<lparr>at_descriptions = None, at_authors = None, at_source = None,
                                     at_attribution = None\<rparr>)
      in case attributes1 of
           JObj x \<Rightarrow> \<lparr>app_title = title, app_descriptions = at_descriptions x,
                      app_authors = at_authors x, app_source = at_source x,
                      app_attribution = at_attribution x\<rparr>
         | _ \<Rightarrow> \<lparr>app_title = title, app_descriptions = None, app_authors = None,
                 app_source = None, app_attribution = None\<rparr>)"

definition app_getTitle :: "app_asset \<Rightarrow> unit jsval" where
  "app_getTitle this = app_title this"

definition app_getDescription :: "app_asset \<Rightarrow> string \<Rightarrow> string option" where
  "app_getDescription this languageCode =
     (case app_descriptions this of
        None \<Rightarrow> None
      | Some d \<Rightarrow> (case d languageCode of None \<Rightarrow> None | Some t \<Rightarrow> if t = [] then None else Some t))"

definition app_getAuthors :: "app_asset \<Rightarrow> options jsval \<Rightarrow> error + authors_result" where
  "app_getAuthors this options =
     (let options1 = js_or options (JObj \<lparr>format = JUndefined\<rparr>)
      in if \<not> strict_eq (js_not (prop_format options1)) (JStr ''string'')
         then Inr (AuthorsArray (app_authors this))
         else (case app_authors this of
                 None \<Rightarrow> Inl TypeError
               | Some xs \<Rightarrow> Inr (AuthorsText (join ''; '' xs))))"

section \<open>The questionnaire state\<close>

text \<open>
  Modelled from the spec: the class QuestionnaireState is not among the sources. Its
  answer store maps a step and an answer to the recorded value, a text or a boolean; an
  entry that is not there is absent. \<open>setValue\<close> records the value for one step and
  answer, the boolean true when the value is omitted; \<open>deleteValue\<close> removes the entry.
\<close>

datatype "value" = VBool bool | VStr string

type_synonym answers = "string \<times> nat \<rightharpoonup> value"

definition setValue :: "answers \<Rightarrow> string \<Rightarrow> nat \<Rightarrow> value option \<Rightarrow> answers" where
  "setValue st page answer v =
     st((page, answer) \<mapsto> (case v of None \<Rightarrow> VBool True | Some x \<Rightarrow> x))"

definition deleteValue :: "answers \<Rightarrow> string \<Rightarrow> nat \<Rightarrow> answers" where
  "deleteValue st page answer = st((page, answer) := None)"

text \<open>
  What \<open>getResult()\<close> of the questionnaire state returns, as far as the pages read it:
  the asset, the use case and the flag for attribution although the use is exceptional.
  How the state computes it is not among the sources: the operations below take
  \<open>getResult\<close> as an argument, a function of the answer store.
\<close>

record 'i result =
  res_asset :: "'i asset"
  res_useCase :: "unit jsval"
  res_attributionAlthoughExceptionalUse :: bool

section \<open>The questionnaire page\<close>

text \<open>
  The class QuestionnairePage of \<open>src/unnamed/part_001\<close>. The animation of the
  checkboxes and the rendering are left out.
\<close>

text \<open>
  A page object works on the questionnaire state and on the input field of its page, and
  it triggers events. The session holds the answer store, the text of the input field and
  the trace of what the page has done to its collaborators so far: the calls of
  \<open>setValue\<close> and \<open>deleteValue\<close>, and the events \<open>update\<close>, which carries the
  questionnaire state, and \<open>goto\<close>, which carries the page to go to.
\<close>

datatype effect =
    SetValue string nat "value option"
  | DeleteValue string nat
  | Update answers
  | Goto string
  | PreventDefault

record session =
  s_answers :: answers
  s_input :: string
  s_trace :: "effect list"

definition update :: "session \<Rightarrow> session" where
  "update \<sigma> = \<sigma>\<lparr>s_trace := s_trace \<sigma> @ [Update (s_answers \<sigma>)]\<rparr>"

definition goTo :: "string \<Rightarrow> session \<Rightarrow> session" where
  "goTo toPage \<sigma> = \<sigma>\<lparr>s_trace := s_trace \<sigma> @ [Goto toPage]\<rparr>"

definition log :: "string \<Rightarrow> nat \<Rightarrow> value option \<Rightarrow> session \<Rightarrow> session" where
  "log page answer v \<sigma> =
     update (\<sigma>\<lparr>s_answers := setValue (s_answers \<sigma>) page answer v,
               s_trace := s_trace \<sigma> @ [SetValue page answer v]\<rparr>)"

definition removeFromLog :: "string \<Rightarrow> nat \<Rightarrow> session \<Rightarrow> session" where
  "removeFromLog page answer \<sigma> =
     \<sigma>\<lparr>s_answers := deleteValue (s_answers \<sigma>) page answer,
       s_trace := s_trace \<sigma> @ [DeleteValue page answer]\<rparr>"

text \<open>
  \<open>$.trim\<close> removes white space at both ends. \<open>evaluateInput\<close> (lines 197 to 206)
  reads the input field of the page.
\<close>

definition white_space :: "char \<Rightarrow> bool" where
  "white_space c = ((of_char c :: nat) \<in> {9, 10, 11, 12, 13, 32, 160})"

definition trim :: "string \<Rightarrow> string" where
  "trim s = rev (dropWhile white_space (rev (dropWhile white_space s)))"

definition evaluateInput :: "string \<Rightarrow> session \<Rightarrow> session" where
  "evaluateInput p \<sigma> =
     (let v = trim (s_input \<sigma>)
      in if v \<noteq> [] then log p 1 (Some (VStr v)) \<sigma>
         else log p 2 None (removeFromLog p 1 \<sigma>))"

text \<open>
  The event handlers that \<open>_applyLogic\<close> and \<open>_applyLogAndGoTo\<close> attach, each with the
  variables it has captured. An event gives the licence id in the data of the element
  clicked, if there is one, and the key code.
\<close>

datatype handler =
    LicenceClick string string
  | LogAndGoTo string nat string
  | Keyup string
  | Keypress string string
  | Submit string string
  | EmptyAnswer string string
  | Page3Answer3 string

record dom_event =
  ev_licenceId :: "string option"
  ev_keyCode :: nat

fun run_handler ::
  "(answers \<Rightarrow> 'i result) \<Rightarrow> handler \<Rightarrow> dom_event \<Rightarrow> session \<Rightarrow> error option \<times> session" where
  "run_handler getResult (LicenceClick p target) ev \<sigma> =
     (None, goTo target (log p 1 (map_option VStr (ev_licenceId ev)) \<sigma>))"
| "run_handler getResult (LogAndGoTo currentPage answer toPage) ev \<sigma> =
     (None, goTo toPage (log currentPage answer None \<sigma>))"
| "run_handler getResult (Keyup p) ev \<sigma> = (None, evaluateInput p \<sigma>)"
| "run_handler getResult (Keypress p target) ev \<sigma> =
     (if ev_keyCode ev = 13
      then (None, goTo target (evaluateInput p (\<sigma>\<lparr>s_trace := s_trace \<sigma> @ [PreventDefault]\<rparr>)))
      else (None, \<sigma>))"
| "run_handler getResult (Submit p target) ev \<sigma> = (None, goTo target (evaluateInput p \<sigma>))"
| "run_handler getResult (EmptyAnswer p target) ev \<sigma> =
     (None, goTo target (evaluateInput p (\<sigma>\<lparr>s_input := []\<rparr>)))"
| "run_handler getResult (Page3Answer3 p) ev \<sigma> =
     (let \<sigma>1 = log p 3 None \<sigma>
      in case getLicence (res_asset (getResult (s_answers \<sigma>1))) of
           JObj l \<Rightarrow>
             (if isInGroup l ''cc2de'' then (None, goTo ''7'' \<sigma>1)
              else (None, goTo ''result-note-privateUse'' \<sigma>1))
         | _ \<Rightarrow> (Some TypeError, \<sigma>1))"

text \<open>
  A page: the handlers attached, each to a selector and a kind of event, and the
  selectors whose elements \<open>_applyDisabled\<close> has given the class \<open>disabled\<close>.
\<close>

datatype event_kind = Click | KeyupEvent | KeypressEvent

record binding =
  b_selector :: string
  b_kind :: event_kind
  b_handler :: handler

record page =
  p_bindings :: "binding list"
  p_disabled :: "string list"

definition empty_page :: page where
  "empty_page = \<lparr>p_bindings = [], p_disabled = []\<rparr>"

definition on :: "string \<Rightarrow> event_kind \<Rightarrow> handler \<Rightarrow> page \<Rightarrow> page" where
  "on sel k h pg = pg\<lparr>p_bindings := p_bindings pg @ [\<lparr>b_selector = sel, b_kind = k, b_handler = h\<rparr>]\<rparr>"

definition applyLogAndGoTo :: "page \<Rightarrow> string \<Rightarrow> nat \<Rightarrow> string \<Rightarrow> page" where
  "applyLogAndGoTo pg currentPage answer toPage =
     on (''.a'' @ string_of_nat answer) Click (LogAndGoTo currentPage answer toPage) pg"

definition applyDisabled :: "page \<Rightarrow> nat \<Rightarrow> page" where
  "applyDisabled pg answer = pg\<lparr>p_disabled := p_disabled pg @ [''.a'' @ string_of_nat answer]\<rparr>"

text \<open>The \<open>.length\<close> of what \<open>getAuthors()\<close> returned.\<close>

fun length_of :: "authors_result \<Rightarrow> error + nat" where
  "length_of (AuthorsArray None) = Inl TypeError"
| "length_of (AuthorsArray (Some xs)) = Inr (length xs)"
| "length_of (AuthorsText t) = Inr (length t)"

text \<open>The page to go to from page 2, computed when the page is set up.\<close>

definition goTo_page2 :: "'i asset \<Rightarrow> error + string" where
  "goTo_page2 asset =
     (case getAuthors asset JUndefined of
        Inl e \<Rightarrow> Inl e
      | Inr r \<Rightarrow>
          (case length_of r of
             Inl e \<Rightarrow> Inl e
           | Inr n \<Rightarrow>
               Inr (if n = 0 then ''form-author''
                    else if \<not> truthy (getTitle asset) then ''form-title''
                    else if \<not> truthy (JStr (getUrl asset) :: unit jsval) then ''form-url''
                    else ''3'')))"

text \<open>The page to go to from one of the three form pages.\<close>

definition goTo_form :: "string \<Rightarrow> 'i asset \<Rightarrow> string" where
  "goTo_form p asset =
     (let title = getTitle asset
      in if p = ''form-author'' \<and> \<not> truthy title then ''form-title''
         else if p \<noteq> ''form-url''
                 \<and> (\<not> truthy (JStr (getUrl asset) :: unit jsval) \<or> getUrl asset = [])
         then ''form-url''
         else ''3'')"

definition text_page :: "string \<Rightarrow> string \<Rightarrow> page \<Rightarrow> page" where
  "text_page p target pg =
     on ''a.a1'' Click (Submit p target)
       (on ''input.a1'' KeypressEvent (Keypress p target)
         (on ''input.a1'' KeyupEvent (Keyup p) pg))"

text \<open>
  \<open>_applyLogic\<close> (lines 191 to 347): \<open>p\<close> is the page's identifier, \<open>asset\<close> the asset of the page object
  and \<open>st\<close> the answer store of its questionnaire state when the page is set up.
\<close>

definition applyLogic ::
  "(answers \<Rightarrow> 'i result) \<Rightarrow> string \<Rightarrow> 'i asset \<Rightarrow> answers \<Rightarrow> page \<Rightarrow> error + page" where
  "applyLogic getResult p asset st pg =
     (if p = ''2'' then
        (case goTo_page2 asset of
           Inl e \<Rightarrow> Inl e
         | Inr target \<Rightarrow>
             Inr (applyLogAndGoTo
                    (applyLogAndGoTo (on ''.a1'' Click (LicenceClick p target) pg)
                       p 9 ''result-note-cc0'')
                    p 10 ''15''))
      else if p = ''form-author'' \<or> p = ''form-title'' \<or> p = ''form-url'' then
        Inr (on ''li.a2'' Click (EmptyAnswer p (goTo_form p asset))
               (text_page p (goTo_form p asset) pg))
      else if p = ''3'' then
        (let pg1 = applyLogAndGoTo pg p 1 ''7'';
             pg2 = applyLogAndGoTo pg1 p 2 ''7'';
             pg3 = on ''.a3'' Click (Page3Answer3 p) pg2;
             pg4 = (if res_attributionAlthoughExceptionalUse (getResult st)
                    then applyDisabled pg3 4
                    else applyLogAndGoTo pg3 p 4 ''5'')
         in Inr (applyLogAndGoTo pg4 p 5 ''6''))
      else if p = ''5'' then
        Inr (applyLogAndGoTo (applyLogAndGoTo pg p 1 ''3'') p 2 ''5a'')
      else if p = ''7'' then
        (let target = (if strict_eq (res_useCase (getResult st)) (JStr ''print'') then ''8'' else ''12a'')
         in Inr (applyLogAndGoTo (applyLogAndGoTo pg p 1 target) p 2 target))
      else if p = ''8'' then
        Inr (applyLogAndGoTo (applyLogAndGoTo pg p 1 ''12a'') p 2 ''12a'')
      else if p = ''9'' then
        Inr (on ''.a2'' Click (EmptyAnswer p ''3'') (text_page p ''3'' pg))
      else if p = ''12a'' then
        Inr (applyLogAndGoTo (applyLogAndGoTo pg p 1 ''result-success'') p 2 ''12b'')
      else if p = ''12b'' then
        Inr (applyLogAndGoTo (applyLogAndGoTo pg p 1 ''13'') p 2 ''12c'')
      else if p = ''13'' then
        Inr (text_page p ''result-success'' pg)
      else Inr pg)"

text \<open>
  An event of kind \<open>k\<close> on the elements of selector \<open>sel\<close>: the handlers attached to
  them run in the order of attachment, up to the first one that throws.
\<close>

fun run_all ::
  "(answers \<Rightarrow> 'i result) \<Rightarrow> handler list \<Rightarrow> dom_event \<Rightarrow> session \<Rightarrow> error option \<times> session" where
  "run_all getResult [] ev \<sigma> = (None, \<sigma>)"
| "run_all getResult (h # hs) ev \<sigma> =
     (case run_handler getResult h ev \<sigma> of
        (Some e, \<sigma>1) \<Rightarrow> (Some e, \<sigma>1)
      | (None, \<sigma>1) \<Rightarrow> run_all getResult hs ev \<sigma>1)"

definition handlers_of :: "page \<Rightarrow> string \<Rightarrow> event_kind \<Rightarrow> handler list" where
  "handlers_of pg sel k =
     map b_handler (filter (\<lambda>b. b_selector b = sel \<and> b_kind b = k) (p_bindings pg))"

definition trigger ::
  "(answers \<Rightarrow> 'i result) \<Rightarrow> page \<Rightarrow> string \<Rightarrow> event_kind \<Rightarrow> dom_event \<Rightarrow> session \<Rightarrow>
   error option \<times> session" where
  "trigger getResult pg sel k ev \<sigma> = run_all getResult (handlers_of pg sel k) ev \<sigma>"

section \<open>Example values\<close>

text \<open>
  An Api object with a default URL, an asset constructed from a file name, a title, a
  media type, a licence and optional attributes, a result of the questionnaire state, a
  session with nothing recorded, the event of a click and the event of a key.
\<close>

definition commons :: "api jsval" where
  "commons = JObj \<lparr>getDefaultUrl = JStr ''//commons.wikimedia.org/''\<rparr>"

definition picture :: "licence jsval \<Rightarrow> attributes jsval \<Rightarrow> string asset" where
  "picture l oa =
     snd (Asset Asset_prototype (JStr ''File:A.jpg'') (JStr ''A'') (JStr ''bitmap'') l commons oa JUndefined)"

definition result_with :: "string asset \<Rightarrow> bool \<Rightarrow> answers \<Rightarrow> string result" where
  "result_with a flag st =
     \<lparr>res_asset = a, res_useCase = JStr ''online'', res_attributionAlthoughExceptionalUse = flag\<rparr>"

definition start :: session where
  "start = \<lparr>s_answers = Map.empty, s_input = [], s_trace = []\<rparr>"

definition click :: "string option \<Rightarrow> dom_event" where
  "click l = \<lparr>ev_licenceId = l, ev_keyCode = 0\<rparr>"

definition key :: "nat \<Rightarrow> dom_event" where
  "key k = \<lparr>ev_licenceId = None, ev_keyCode = k\<rparr>"

text \<open>
  The session on the page \<open>form-author\<close> after a keystroke that left the input field
  empty, and the same session with \<open>Alice\<close> typed into the field.
\<close>

definition emptied :: session where
  "emptied = evaluateInput ''form-author'' start"

definition typed :: session where
  "typed = emptied\<lparr>s_input := ''Alice''\<rparr>"

section \<open>Evaluation of the definitions\<close>

lemma strict_eq_JNull [simp]: "strict_eq v JNull \<longleftrightarrow> v = JNull"
  by (cases v) simp_all

lemma digit_texts:
  "string_of_nat (Suc 0) = ''1''" "string_of_nat 1 = ''1''" "string_of_nat 2 = ''2''" "string_of_nat 3 = ''3''"
  "string_of_nat 4 = ''4''" "string_of_nat 5 = ''5''" "string_of_nat 9 = ''9''"
  "string_of_nat 10 = ''10''"
  by code_simp+

lemmas page_defs = applyLogic_def applyLogAndGoTo_def applyDisabled_def on_def empty_page_def
  handlers_of_def trigger_def text_page_def digit_texts

lemmas action_defs = log_def update_def goTo_def removeFromLog_def evaluateInput_def

lemma picture_fields:
  "a_imageInfo (picture JNull JUndefined) = Some Map.empty"
  "a_api (picture JNull JUndefined) = commons"
  "a_prefixedFilename (picture JNull JUndefined) = JStr ''File:A.jpg''"
  "a_wikiUrl (picture JNull JUndefined) = JStr ''//commons.wikimedia.org/''"
  "a_authors (picture JNull JUndefined) = Some []"
  "a_authors (picture JNull (JObj \<lparr>attr_authors = Some [''Alice''], attr_attribution = None\<rparr>)) = Some [''Alice'']"
  "a_title (picture JNull JUndefined) = JStr ''A''"
  "a_title (picture JNull (JObj \<lparr>attr_authors = Some [''Alice''], attr_attribution = None\<rparr>)) = JStr ''A''"
  "a_licence (picture (JObj x) JUndefined) = JObj x"
  by (simp_all add: picture_def Asset_def commons_def js_or_def Asset_prototype_def)

lemma goTo_page2_cases:
  "goTo_page2 asset =
     (case a_authors asset of
        None \<Rightarrow> Inl TypeError
      | Some xs \<Rightarrow>
          Inr (if xs = [] then ''form-author''
               else if \<not> truthy (getTitle asset) then ''form-title''
               else if getUrl asset = [] then ''form-url''
               else ''3''))"
  by (simp add: goTo_page2_def getAuthors_def js_not_def js_or_def split: option.splits)

section \<open>The licence lookup\<close>

text \<open>
  The loop of the lookup returns the entry at the least index whose match rule accepts
  the string.
\<close>

lemma first_match_Some:
  "first_match ls s = Some l \<Longrightarrow>
     \<exists>k<length ls. ls ! k = l \<and> match l s \<and> (\<forall>m<k. \<not> match (ls ! m) s)"
proof (induction ls)
  case Nil
  then show ?case by simp
next
  case (Cons a ls)
  show ?case
  proof (cases "match a s")
    case True
    with Cons.prems have "a = l" by simp
    with True show ?thesis by (intro exI [of _ 0]) simp
  next
    case False
    with Cons.prems have "first_match ls s = Some l" by simp
    from Cons.IH [OF this] obtain k where
      k: "k < length ls" "ls ! k = l" "match l s" "\<forall>m<k. \<not> match (ls ! m) s" by blast
    have "\<forall>m<Suc k. \<not> match ((a # ls) ! m) s"
      using False k(4) by (auto simp: less_Suc_eq_0_disj)
    with k show ?thesis by (intro exI [of _ "Suc k"]) simp
  qed
qed

lemma first_match_None:
  "first_match ls s = None \<Longrightarrow> l \<in> set ls \<Longrightarrow> \<not> match l s"
  by (induction ls) (auto split: if_splits)

lemma unknown_accepts: "match (last LICENCES) s"
  by (simp add: LICENCES_def Licence_def match_def)

lemma length_LICENCES: "length LICENCES = 12"
  by (simp add: LICENCES_def)

lemma distinct_ids: "distinct (map lic_id LICENCES)"
  by (simp add: LICENCES_def Licence_def)

lemma find_licence_index:
  "\<exists>k<length LICENCES. find_licence s = LICENCES ! k \<and> match (LICENCES ! k) s \<and>
     (\<forall>m<k. \<not> match (LICENCES ! m) s)"
proof (cases "first_match LICENCES s")
  case None
  have "last LICENCES \<in> set LICENCES" by (simp add: LICENCES_def)
  from first_match_None [OF None this] show ?thesis using unknown_accepts by simp
next
  case (Some l)
  from first_match_Some [OF Some] show ?thesis
    by (auto simp: find_licence_def Some)
qed

lemma nth_LICENCES_inj:
  "i < length LICENCES \<Longrightarrow> j < length LICENCES \<Longrightarrow> LICENCES ! i = LICENCES ! j \<Longrightarrow> i = j"
proof -
  assume a: "i < length LICENCES" "j < length LICENCES" "LICENCES ! i = LICENCES ! j"
  then have e: "map lic_id LICENCES ! i = map lic_id LICENCES ! j" by simp
  have "(map lic_id LICENCES ! i = map lic_id LICENCES ! j) = (i = j)"
    using a(1,2) by (intro nth_eq_iff_index_eq [OF distinct_ids]) simp_all
  with e show "i = j" by blast
qed

text \<open>
  Claim C1. The lookup is a function of the string, and the order of the registry decides:
  it returns the entry at the least index whose pattern accepts the string. So when the
  patterns of two entries both accept the string, the later of the two is never returned,
  the entry returned is the earlier one or one before it, and it is the earlier one when no
  entry before it accepts the string. The entry \<open>cc\<close>, with the pattern \<open>/CC-BY/i\<close>, is
  the eleventh entry, after the ten specific ones; it is returned exactly for the strings
  that its pattern accepts and none of the ten earlier patterns accepts, and a string that
  it accepts is never resolved to \<open>unknown\<close>.
\<close>

theorem find_licence_first_match:
  "(\<exists>k<length LICENCES. find_licence s = LICENCES ! k \<and> match (LICENCES ! k) s \<and>
      (\<forall>m<k. \<not> match (LICENCES ! m) s))
   \<and> (\<forall>i j. i < j \<and> j < length LICENCES \<and> match (LICENCES ! i) s \<and> match (LICENCES ! j) s \<longrightarrow>
        find_licence s \<noteq> LICENCES ! j \<and> (\<exists>k\<le>i. find_licence s = LICENCES ! k) \<and>
        ((\<forall>m<i. \<not> match (LICENCES ! m) s) \<longrightarrow> find_licence s = LICENCES ! i))
   \<and> lic_id (LICENCES ! 10) = ''cc'' \<and> lic_regExp (LICENCES ! 10) = RegExp (str ''CC-BY'') True
   \<and> (find_licence s = LICENCES ! 10 \<longleftrightarrow>
        match (LICENCES ! 10) s \<and> (\<forall>m<10. \<not> match (LICENCES ! m) s))
   \<and> (match (LICENCES ! 10) s \<longrightarrow> lic_id (find_licence s) \<noteq> ''unknown'')"
proof -
  obtain k where k: "k < length LICENCES" "find_licence s = LICENCES ! k"
    "match (LICENCES ! k) s" "\<forall>m<k. \<not> match (LICENCES ! m) s"
    using find_licence_index by blast
  have later: "k \<le> i" if "match (LICENCES ! i) s" for i
    using that k(4) by (meson not_le)
  have pair: "find_licence s \<noteq> LICENCES ! j \<and> (\<exists>k\<le>i. find_licence s = LICENCES ! k) \<and>
        ((\<forall>m<i. \<not> match (LICENCES ! m) s) \<longrightarrow> find_licence s = LICENCES ! i)"
    if h: "i < j" "j < length LICENCES" "match (LICENCES ! i) s" "match (LICENCES ! j) s" for i j
  proof -
    have ki: "k \<le> i" using later h(3) .
    then have "k \<noteq> j" using h(1) by simp
    then have 1: "find_licence s \<noteq> LICENCES ! j"
      using nth_LICENCES_inj [OF k(1) h(2)] k(2) by auto
    have 2: "\<exists>k\<le>i. find_licence s = LICENCES ! k" using ki k(2) by blast
    have 3: "find_licence s = LICENCES ! i" if "\<forall>m<i. \<not> match (LICENCES ! m) s"
    proof -
      from that k(3) have "\<not> k < i" by blast
      with ki have "k = i" by simp
      with k(2) show ?thesis by simp
    qed
    from 1 2 3 show ?thesis by blast
  qed
  have id: "lic_id (LICENCES ! 10) = ''cc''"
    and re: "lic_regExp (LICENCES ! 10) = RegExp (str ''CC-BY'') True"
    by (simp_all add: LICENCES_def Licence_def)
  have cc: "find_licence s = LICENCES ! 10 \<longleftrightarrow>
        match (LICENCES ! 10) s \<and> (\<forall>m<10. \<not> match (LICENCES ! m) s)"
  proof
    assume "find_licence s = LICENCES ! 10"
    with k(2) have "LICENCES ! k = LICENCES ! 10" by simp
    then have "k = 10" using nth_LICENCES_inj [OF k(1), of 10] by (simp add: length_LICENCES)
    with k(3,4) show "match (LICENCES ! 10) s \<and> (\<forall>m<10. \<not> match (LICENCES ! m) s)" by simp
  next
    assume a: "match (LICENCES ! 10) s \<and> (\<forall>m<10. \<not> match (LICENCES ! m) s)"
    then have "k \<le> 10" using later by blast
    moreover have "\<not> k < 10" using a k(3) by blast
    ultimately have "k = 10" by simp
    with k(2) show "find_licence s = LICENCES ! 10" by simp
  qed
  have fallback: "lic_id (find_licence s) \<noteq> ''unknown''" if m: "match (LICENCES ! 10) s"
  proof
    assume u: "lic_id (find_licence s) = ''unknown''"
    have "lic_id (LICENCES ! 11) = ''unknown''" by (simp add: LICENCES_def Licence_def)
    with u k(2) have e: "map lic_id LICENCES ! k = map lic_id LICENCES ! 11"
      using k(1) by (simp add: length_LICENCES)
    have "(map lic_id LICENCES ! k = map lic_id LICENCES ! 11) = (k = 11)"
      using k(1) by (intro nth_eq_iff_index_eq [OF distinct_ids]) (simp_all add: length_LICENCES)
    with e have "k = 11" by blast
    moreover have "k \<le> 10" using later m .
    ultimately show False by simp
  qed
  from k pair id re cc fallback show ?thesis by blast
qed

theorem find_licence_first_match_witness:
  "match (LICENCES ! 7) ''CC-BY-SA-3.0-DE'' \<and> match (LICENCES ! 10) ''CC-BY-SA-3.0-DE''
   \<and> (7::nat) < 10 \<and> 10 < length LICENCES
   \<and> find_licence ''CC-BY-SA-3.0-DE'' \<noteq> LICENCES ! 10
   \<and> lic_id (find_licence ''CC-BY-SA-3.0-DE'') = ''cc-by-sa-3.0-de''
   \<and> lic_id (find_licence ''CC-BY-NC-2.0'') = ''cc''"
proof -
  have a: "match (LICENCES ! 7) ''CC-BY-SA-3.0-DE''" by code_simp
  have b: "match (LICENCES ! 10) ''CC-BY-SA-3.0-DE''" by code_simp
  have c: "(7::nat) < 10 \<and> 10 < length LICENCES" by (simp add: length_LICENCES)
  have d: "lic_id (find_licence ''CC-BY-SA-3.0-DE'') = ''cc-by-sa-3.0-de''" by code_simp
  have e: "lic_id (find_licence ''CC-BY-NC-2.0'') = ''cc''" by code_simp
  from find_licence_first_match [of "''CC-BY-SA-3.0-DE''"] a b c
  have "find_licence ''CC-BY-SA-3.0-DE'' \<noteq> LICENCES ! 10" by blast
  with a b c d e show ?thesis by blast
qed

text \<open>
  Three patterns accept \<open>CC-BY-3.0/DE\<close>: those of \<open>cc-by-3.0-de\<close>, of \<open>cc-by-3.0\<close> and
  of \<open>cc\<close>. The first of the three is returned.
\<close>

lemma three_matches:
  "match (LICENCES ! 3) ''CC-BY-3.0/DE'' \<and> match (LICENCES ! 4) ''CC-BY-3.0/DE''
   \<and> match (LICENCES ! 10) ''CC-BY-3.0/DE'' \<and> lic_id (find_licence ''CC-BY-3.0/DE'') = ''cc-by-3.0-de''"
  by code_simp

section \<open>The authors of an asset\<close>

text \<open>
  Claim C6. For every asset of either implementation and every options argument, omitted or
  not, \<open>getAuthors\<close> returns the field of the authors and never the joined text: the
  condition \<open>!options.format !== 'string'\<close> compares a boolean with a text and holds
  whatever the format is.
\<close>

theorem getAuthors_always_array:
  "getAuthors this options = Inr (AuthorsArray (a_authors this))
   \<and> app_getAuthors that options = Inr (AuthorsArray (app_authors that))
   \<and> (\<forall>t. getAuthors this options \<noteq> Inr (AuthorsText t))
   \<and> (\<forall>t. app_getAuthors that options \<noteq> Inr (AuthorsText t))
   \<and> \<not> strict_eq (js_not (prop_format (js_or options (JObj \<lparr>format = JUndefined\<rparr>)))) (JStr ''string'')"
  by (simp add: getAuthors_def app_getAuthors_def js_not_def)

text \<open>With the format \<open>string\<close> asked for, the array comes back.\<close>

lemma getAuthors_string_format:
  "getAuthors (setAuthors (Asset_prototype :: string asset) (Some [''A'', ''B'']))
     (JObj \<lparr>format = JStr ''string''\<rparr>) = Inr (AuthorsArray (Some [''A'', ''B'']))"
  by (simp add: getAuthors_def js_not_def js_or_def setAuthors_def)

section \<open>The constructor of the asset\<close>

text \<open>
  Claim C10. The constructor throws the error of the initialisation parameters exactly when
  the prefixed file name, the title, the media type or the API is falsy, or the licence is
  falsy and not \<open>null\<close>. On that branch the object is as it was before the call: no field
  has been assigned. The licence \<open>null\<close> is accepted when the other four are truthy; the
  licences \<open>undefined\<close> and \<open>false\<close> are rejected.
\<close>

theorem Asset_InitError_iff:
  "(fst (Asset this prefixedFilename title mediaType licence api optionalAttributes wikiUrl) = Some InitError
      \<longleftrightarrow> \<not> truthy prefixedFilename \<or> \<not> truthy title \<or> \<not> truthy mediaType \<or> \<not> truthy api
          \<or> (\<not> truthy licence \<and> licence \<noteq> JNull))
   \<and> (fst (Asset this prefixedFilename title mediaType licence api optionalAttributes wikiUrl) = Some InitError
      \<longrightarrow> snd (Asset this prefixedFilename title mediaType licence api optionalAttributes wikiUrl) = this)
   \<and> (truthy prefixedFilename \<and> truthy title \<and> truthy mediaType \<and> truthy api
      \<longrightarrow> fst (Asset this prefixedFilename title mediaType JNull api optionalAttributes wikiUrl) \<noteq> Some InitError)
   \<and> fst (Asset this prefixedFilename title mediaType JUndefined api optionalAttributes wikiUrl) = Some InitError
   \<and> fst (Asset this prefixedFilename title mediaType (JBool False) api optionalAttributes wikiUrl) = Some InitError"
  by (auto simp: Asset_def Let_def split: jsval.splits)

theorem Asset_InitError_iff_witness:
  "\<not> truthy (JStr '''' :: unit jsval)
   \<and> fst (Asset (Asset_prototype :: string asset) (JStr ''File:A.jpg'') (JStr '''') (JStr ''bitmap'') JNull
        (JObj \<lparr>getDefaultUrl = JStr ''//commons.wikimedia.org/''\<rparr>) JUndefined JUndefined) = Some InitError
   \<and> snd (Asset (Asset_prototype :: string asset) (JStr ''File:A.jpg'') (JStr '''') (JStr ''bitmap'') JNull
        (JObj \<lparr>getDefaultUrl = JStr ''//commons.wikimedia.org/''\<rparr>) JUndefined JUndefined) = Asset_prototype
   \<and> truthy (JStr ''File:A.jpg'' :: unit jsval) \<and> truthy (JStr ''A'' :: unit jsval)
   \<and> truthy (JStr ''bitmap'' :: unit jsval)
   \<and> truthy (JObj \<lparr>getDefaultUrl = JStr ''//commons.wikimedia.org/''\<rparr>)
   \<and> fst (Asset (Asset_prototype :: string asset) (JStr ''File:A.jpg'') (JStr ''A'') (JStr ''bitmap'') JNull
        (JObj \<lparr>getDefaultUrl = JStr ''//commons.wikimedia.org/''\<rparr>) JUndefined JUndefined) \<noteq> Some InitError"
proof -
  have e: "\<not> truthy (JStr '''' :: unit jsval)" by simp
  have t: "truthy (JStr ''File:A.jpg'' :: unit jsval) \<and> truthy (JStr ''A'' :: unit jsval)
     \<and> truthy (JStr ''bitmap'' :: unit jsval)
     \<and> truthy (JObj \<lparr>getDefaultUrl = JStr ''//commons.wikimedia.org/''\<rparr>)" by simp
  note a = Asset_InitError_iff [of "Asset_prototype :: string asset" "JStr ''File:A.jpg''" "JStr ''''"
      "JStr ''bitmap''" JNull "JObj \<lparr>getDefaultUrl = JStr ''//commons.wikimedia.org/''\<rparr>"
      JUndefined JUndefined]
  note b = Asset_InitError_iff [of "Asset_prototype :: string asset" "JStr ''File:A.jpg''" "JStr ''A''"
      "JStr ''bitmap''" JNull "JObj \<lparr>getDefaultUrl = JStr ''//commons.wikimedia.org/''\<rparr>"
      JUndefined JUndefined]
  from a e have 1: "fst (Asset (Asset_prototype :: string asset) (JStr ''File:A.jpg'') (JStr '''') (JStr ''bitmap'') JNull
        (JObj \<lparr>getDefaultUrl = JStr ''//commons.wikimedia.org/''\<rparr>) JUndefined JUndefined) = Some InitError"
    by blast
  with a have 2: "snd (Asset (Asset_prototype :: string asset) (JStr ''File:A.jpg'') (JStr '''') (JStr ''bitmap'') JNull
        (JObj \<lparr>getDefaultUrl = JStr ''//commons.wikimedia.org/''\<rparr>) JUndefined JUndefined) = Asset_prototype"
    by blast
  from b t have 3: "fst (Asset (Asset_prototype :: string asset) (JStr ''File:A.jpg'') (JStr ''A'') (JStr ''bitmap'') JNull
        (JObj \<lparr>getDefaultUrl = JStr ''//commons.wikimedia.org/''\<rparr>) JUndefined JUndefined) \<noteq> Some InitError"
    by blast
  from e t 1 2 3 show ?thesis by blast
qed

section \<open>The URL of a constructed asset\<close>

lemma Asset_constructed:
  assumes "Asset this prefixedFilename title mediaType licence api optionalAttributes wikiUrl = (None, a)"
  shows "truthy prefixedFilename" "truthy title" "truthy mediaType" "truthy api"
    "a_prefixedFilename a = prefixedFilename" "a_title a = title"
    "a_authors a \<noteq> None" "a_imageInfo a = Some Map.empty" "a_licence a = licence" "a_api a = api"
    "a_wikiUrl a =
       (let w = (if is_string optionalAttributes then as_url optionalAttributes else wikiUrl)
        in if truthy w then w else (case api of JObj x \<Rightarrow> getDefaultUrl x | _ \<Rightarrow> JUndefined))"
    "truthy (if is_string optionalAttributes then as_url optionalAttributes else wikiUrl) \<or> (\<exists>x. api = JObj x)"
  using assms by (auto simp: Asset_def Let_def split: if_splits jsval.splits)

lemma getUrl_not_empty: "getUrl a \<noteq> []"
  by (simp add: getUrl_def)

text \<open>
  Claim C9. For an asset that the constructor has built, \<open>getUrl()\<close> is not empty: it is
  \<open>http:\<close>, the wiki URL, \<open>wiki/\<close> and the prefixed file name, where the wiki URL is the
  one given or, when none is given, the default URL of the API. So the test for a missing
  URL on page 2 does not fire: the page to go to for answer 1 is \<open>form-author\<close>,
  \<open>form-title\<close> or \<open>3\<close> and never \<open>form-url\<close>, and that is the target of the handler
  attached to answer 1.
\<close>

theorem constructed_asset_url:
  assumes "Asset this prefixedFilename title mediaType licence api optionalAttributes wikiUrl = (None, a)"
  shows "getUrl a \<noteq> []
    \<and> getUrl a = ''http:'' @ ToString (a_wikiUrl a) @ ''wiki/'' @ ToString prefixedFilename
    \<and> a_wikiUrl a =
       (let w = (if is_string optionalAttributes then as_url optionalAttributes else wikiUrl)
        in if truthy w then w else (case api of JObj x \<Rightarrow> getDefaultUrl x | _ \<Rightarrow> JUndefined))
    \<and> (truthy (if is_string optionalAttributes then as_url optionalAttributes else wikiUrl) \<or> (\<exists>x. api = JObj x))
    \<and> truthy (JStr (getUrl a) :: unit jsval)
    \<and> goTo_page2 a \<in> {Inr ''form-author'', Inr ''form-title'', Inr ''3''}
    \<and> goTo_page2 a \<noteq> Inr ''form-url''
    \<and> (\<exists>pg target. applyLogic getResult ''2'' a st empty_page = Inr pg
          \<and> handlers_of pg ''.a1'' Click = [LicenceClick ''2'' target]
          \<and> target \<in> {''form-author'', ''form-title'', ''3''} \<and> target \<noteq> ''form-url'')"
proof -
  note c = Asset_constructed [OF assms]
  have u: "getUrl a \<noteq> []" by (rule getUrl_not_empty)
  have 1: "getUrl a = ''http:'' @ ToString (a_wikiUrl a) @ ''wiki/'' @ ToString prefixedFilename"
    using c(5) by (simp add: getUrl_def)
  obtain xs where xs: "a_authors a = Some xs" using c(7) by blast
  have g: "goTo_page2 a = Inr (if xs = [] then ''form-author''
             else if \<not> truthy (getTitle a) then ''form-title'' else ''3'')"
    using xs u by (simp add: goTo_page2_def getAuthors_def js_not_def js_or_def)
  then have 2: "goTo_page2 a \<in> {Inr ''form-author'', Inr ''form-title'', Inr ''3''}"
    and 3: "goTo_page2 a \<noteq> Inr ''form-url''" by auto
  have s9: "string_of_nat 9 = ''9''" and s10: "string_of_nat 10 = ''10''" by code_simp+
  have 4: "\<exists>pg target. applyLogic getResult ''2'' a st empty_page = Inr pg
          \<and> handlers_of pg ''.a1'' Click = [LicenceClick ''2'' target]
          \<and> target \<in> {''form-author'', ''form-title'', ''3''} \<and> target \<noteq> ''form-url''"
    by (simp add: g applyLogic_def applyLogAndGoTo_def on_def empty_page_def handlers_of_def s9 s10)
  from u 1 c(11,12) 2 3 4 show ?thesis by simp
qed

theorem constructed_asset_url_witness:
  "Asset (Asset_prototype :: string asset) (JStr ''File:A.jpg'') (JStr ''A'') (JStr ''bitmap'') JNull commons
       JUndefined JUndefined = (None, picture JNull JUndefined)
   \<and> getUrl (picture JNull JUndefined) = ''http://commons.wikimedia.org/wiki/File:A.jpg''
   \<and> goTo_page2 (picture JNull JUndefined) = Inr ''form-author''
   \<and> goTo_page2 (picture JNull JUndefined) \<noteq> Inr ''form-url''"
proof -
  have c: "Asset (Asset_prototype :: string asset) (JStr ''File:A.jpg'') (JStr ''A'') (JStr ''bitmap'') JNull
       commons JUndefined JUndefined = (None, picture JNull JUndefined)"
    by (simp add: picture_def Asset_def commons_def js_or_def)
  note t = constructed_asset_url [OF c]
  from t have u: "getUrl (picture JNull JUndefined) =
      ''http:'' @ ToString (a_wikiUrl (picture JNull JUndefined)) @ ''wiki/'' @ ToString (JStr ''File:A.jpg'')"
    by blast
  have 1: "getUrl (picture JNull JUndefined) = ''http://commons.wikimedia.org/wiki/File:A.jpg''"
    unfolding u by (simp add: picture_fields)
  from t have 2: "goTo_page2 (picture JNull JUndefined) \<noteq> Inr ''form-url''" by blast
  have 3: "goTo_page2 (picture JNull JUndefined) = Inr ''form-author''"
    by (simp add: goTo_page2_cases picture_fields)
  from c 1 2 3 show ?thesis by simp
qed

text \<open>
  The constructor accepts a truthy title only, so for an asset as it was constructed the
  page to go to from page 2 is \<open>form-author\<close> or \<open>3\<close>.
\<close>

lemma constructed_asset_target:
  assumes "Asset this prefixedFilename title mediaType licence api optionalAttributes wikiUrl = (None, a)"
  shows "goTo_page2 a = Inr (if a_authors a = Some [] then ''form-author'' else ''3'')"
  using Asset_constructed(2,6,7) [OF assms] getUrl_not_empty [of a]
  by (auto simp: goTo_page2_cases getTitle_def)

section \<open>The cache of image information\<close>

lemma step_cached:
  "cached this n = Some i \<Longrightarrow>
     cached (step this e) n = (if stores n e then (case e of Done k j \<Rightarrow> Some j | _ \<Rightarrow> Some i) else Some i)"
  by (cases e) (auto simp: cached_def getImageInfo_done_def getImageInfo_fail_def split: option.splits)

lemma step_cached_None:
  "cached this n = None \<Longrightarrow> \<not> stores n e \<Longrightarrow> cached (step this e) n = None"
  by (cases e) (auto simp: cached_def getImageInfo_done_def getImageInfo_fail_def split: option.splits)

lemma step_fields:
  "a_api (step this e) = a_api this" "a_prefixedFilename (step this e) = a_prefixedFilename this"
  "a_wikiUrl (step this e) = a_wikiUrl this"
  "a_imageInfo this \<noteq> None \<Longrightarrow> a_imageInfo (step this e) \<noteq> None"
  by (cases e; auto simp: getImageInfo_done_def getImageInfo_fail_def split: option.splits)+

lemma run_cached:
  "cached this n = Some i \<Longrightarrow>
     \<exists>j. cached (run this evs) n = Some j \<and> ((\<forall>e\<in>set evs. \<not> stores n e) \<longrightarrow> j = i)"
proof (induction evs arbitrary: this i)
  case Nil
  then show ?case by (simp add: run_def)
next
  case (Cons e evs)
  show ?case
  proof (cases "stores n e")
    case True
    then obtain j where "cached (step this e) n = Some j"
      using step_cached [OF Cons.prems, of e] by (cases e) auto
    from Cons.IH [OF this] True show ?thesis by (auto simp: run_def)
  next
    case False
    then have "cached (step this e) n = Some i"
      using step_cached [OF Cons.prems, of e] by simp
    from Cons.IH [OF this] False show ?thesis by (auto simp: run_def)
  qed
qed

lemma run_cached_None:
  "cached this n = None \<Longrightarrow> \<forall>e\<in>set evs. \<not> stores n e \<Longrightarrow> cached (run this evs) n = None"
proof (induction evs arbitrary: this)
  case Nil
  then show ?case by (simp add: run_def)
next
  case (Cons e evs)
  from Cons.prems have "cached (step this e) n = None" by (simp add: step_cached_None)
  from Cons.IH [OF this] Cons.prems(2) show ?case by (simp add: run_def)
qed

lemma run_fields:
  "a_api (run this evs) = a_api this \<and> a_prefixedFilename (run this evs) = a_prefixedFilename this
   \<and> a_wikiUrl (run this evs) = a_wikiUrl this"
  by (induction evs arbitrary: this) (simp_all add: run_def step_fields)

lemma run_imageInfo: "a_imageInfo this \<noteq> None \<Longrightarrow> a_imageInfo (run this evs) \<noteq> None"
proof (induction evs arbitrary: this)
  case Nil
  then show ?case by (simp add: run_def)
next
  case (Cons e evs)
  from Cons.prems have "a_imageInfo (step this e) \<noteq> None" by (rule step_fields(4))
  from Cons.IH [OF this] show ?case by (simp add: run_def)
qed

lemma getImageInfo_hit: "cached this n = Some i \<Longrightarrow> getImageInfo this n = Inr (Resolve i)"
  by (auto simp: cached_def getImageInfo_def split: option.splits)

lemma getImageInfo_miss:
  "cached this n = None \<Longrightarrow> a_imageInfo this \<noteq> None \<Longrightarrow> a_api this = JObj ap \<Longrightarrow>
     getImageInfo this n =
       Inr (Request \<lparr>rq_filename = a_prefixedFilename this, rq_size = n, rq_wikiUrl = a_wikiUrl this\<rparr>)"
  by (auto simp: cached_def getImageInfo_def split: option.splits)

text \<open>
  Claim C8. When the callback \<open>done\<close> has resolved a call for a size, then after any further
  calls and answers of the API a call for that size is resolved at once with an object of
  the cache and sends no request; the object is the one stored then, unless a later answer
  for the same size has stored another. A call for another size, for which nothing is
  stored, sends a request with that size, the file name and the wiki URL of the asset.
\<close>

theorem getImageInfo_cache:
  assumes "getImageInfo_done this n info = Inr (this1, r)"
  shows "r = Resolved info
    \<and> (\<exists>i. getImageInfo (run this1 evs) n = Inr (Resolve i)
           \<and> ((\<forall>e\<in>set evs. \<not> stores n e) \<longrightarrow> i = info))
    \<and> (\<forall>k ap. k \<noteq> n \<and> cached this k = None \<and> (\<forall>e\<in>set evs. \<not> stores k e) \<and> a_api this = JObj ap
          \<longrightarrow> getImageInfo (run this1 evs) k =
                Inr (Request \<lparr>rq_filename = a_prefixedFilename this, rq_size = k,
                              rq_wikiUrl = a_wikiUrl this\<rparr>))"
proof -
  from assms obtain m where m: "a_imageInfo this = Some m"
    and this1: "this1 = this\<lparr>a_imageInfo := Some (m(n \<mapsto> info))\<rparr>" and r: "r = Resolved info"
    by (auto simp: getImageInfo_done_def split: option.splits)
  have c: "cached this1 n = Some info" by (simp add: this1 cached_def)
  from run_cached [OF c, of evs] obtain j where
    j: "cached (run this1 evs) n = Some j" "(\<forall>e\<in>set evs. \<not> stores n e) \<longrightarrow> j = info" by blast
  have hit: "\<exists>i. getImageInfo (run this1 evs) n = Inr (Resolve i)
           \<and> ((\<forall>e\<in>set evs. \<not> stores n e) \<longrightarrow> i = info)"
    using getImageInfo_hit [OF j(1)] j(2) by blast
  have miss: "getImageInfo (run this1 evs) k =
                Inr (Request \<lparr>rq_filename = a_prefixedFilename this, rq_size = k,
                              rq_wikiUrl = a_wikiUrl this\<rparr>)"
    if h: "k \<noteq> n" "cached this k = None" "\<forall>e\<in>set evs. \<not> stores k e" "a_api this = JObj ap" for k ap
  proof -
    have "cached this1 k = None" using h(1,2) m by (simp add: this1 cached_def)
    then have 1: "cached (run this1 evs) k = None" using h(3) by (rule run_cached_None)
    have f: "a_api (run this1 evs) = JObj ap" "a_prefixedFilename (run this1 evs) = a_prefixedFilename this"
      "a_wikiUrl (run this1 evs) = a_wikiUrl this" "a_imageInfo (run this1 evs) \<noteq> None"
      using run_fields [of this1 evs] run_imageInfo [of this1 evs] h(4) by (simp_all add: this1)
    from getImageInfo_miss [OF 1 f(4) f(1)] f(2,3) show ?thesis by simp
  qed
  from r hit miss show ?thesis by blast
qed

theorem getImageInfo_cache_witness:
  "getImageInfo (picture JNull JUndefined) 300 =
       Inr (Request \<lparr>rq_filename = JStr ''File:A.jpg'', rq_size = 300,
                     rq_wikiUrl = JStr ''//commons.wikimedia.org/''\<rparr>)
   \<and> (\<exists>this1. (getImageInfo_done (picture JNull JUndefined) 300 ''info 300''
                 :: error + string asset \<times> (string, unit) settled) = Inr (this1, Resolved ''info 300'')
        \<and> getImageInfo (run this1 [Call 300, Call 640, Fail 640 ()]) 300 = Inr (Resolve ''info 300'')
        \<and> getImageInfo (run this1 [Call 300, Call 640, Fail 640 ()]) 640 =
            Inr (Request \<lparr>rq_filename = JStr ''File:A.jpg'', rq_size = 640,
                          rq_wikiUrl = JStr ''//commons.wikimedia.org/''\<rparr>))"
proof -
  let ?a = "picture JNull JUndefined"
  let ?evs = "[Call 300, Call 640, Fail 640 ()] :: (string, unit) event list"
  have 0: "getImageInfo ?a 300 =
       Inr (Request \<lparr>rq_filename = JStr ''File:A.jpg'', rq_size = 300,
                     rq_wikiUrl = JStr ''//commons.wikimedia.org/''\<rparr>)"
    by (simp add: getImageInfo_def picture_fields commons_def)
  obtain this1 where d: "(getImageInfo_done ?a 300 ''info 300''
                 :: error + string asset \<times> (string, unit) settled) = Inr (this1, Resolved ''info 300'')"
    by (simp add: getImageInfo_done_def picture_fields)
  have n: "\<forall>e\<in>set ?evs. \<not> stores 300 e" "\<forall>e\<in>set ?evs. \<not> stores 640 e" by simp_all
  have k: "(640::nat) \<noteq> 300" "cached ?a 640 = None" "a_api ?a = JObj \<lparr>getDefaultUrl = JStr ''//commons.wikimedia.org/''\<rparr>"
    by (simp_all add: cached_def picture_fields commons_def)
  note t = getImageInfo_cache [OF d, of ?evs]
  from t n(1) have 1: "getImageInfo (run this1 ?evs) 300 = Inr (Resolve ''info 300'')" by blast
  from t n(2) k have "getImageInfo (run this1 ?evs) 640 =
            Inr (Request \<lparr>rq_filename = a_prefixedFilename ?a, rq_size = 640,
                          rq_wikiUrl = a_wikiUrl ?a\<rparr>)" by blast
  then have 2: "getImageInfo (run this1 ?evs) 640 =
            Inr (Request \<lparr>rq_filename = JStr ''File:A.jpg'', rq_size = 640,
                          rq_wikiUrl = JStr ''//commons.wikimedia.org/''\<rparr>)"
    by (simp add: picture_fields)
  from 0 d 1 2 show ?thesis by blast
qed

section \<open>The pages of the questionnaire\<close>

text \<open>
  Claim C2. On page 2, set up for an asset whose authors are an array, a click on answer 1
  records the licence id of the element clicked for step 2 and answer 1, triggers the
  update and then goes to the page computed when the page was set up: \<open>form-author\<close>
  when there are no authors, \<open>form-title\<close> when there are authors and no title,
  \<open>form-url\<close> when only the URL is missing, and \<open>3\<close> when authors, title and URL are
  all there.
\<close>

theorem page2_answer1:
  assumes "applyLogic getResult ''2'' asset st empty_page = Inr pg"
  shows "\<exists>xs target. a_authors asset = Some xs
     \<and> trigger getResult pg ''.a1'' Click ev \<sigma> =
         (None, \<sigma>\<lparr>s_answers := setValue (s_answers \<sigma>) ''2'' 1 (map_option VStr (ev_licenceId ev)),
                   s_trace := s_trace \<sigma> @
                     [SetValue ''2'' 1 (map_option VStr (ev_licenceId ev)),
                      Update (setValue (s_answers \<sigma>) ''2'' 1 (map_option VStr (ev_licenceId ev))),
                      Goto target]\<rparr>)
     \<and> (target = ''form-author'' \<longleftrightarrow> xs = [])
     \<and> (target = ''form-title'' \<longleftrightarrow> xs \<noteq> [] \<and> \<not> truthy (getTitle asset))
     \<and> (target = ''form-url'' \<longleftrightarrow> xs \<noteq> [] \<and> truthy (getTitle asset) \<and> getUrl asset = [])
     \<and> (target = ''3'' \<longleftrightarrow> xs \<noteq> [] \<and> truthy (getTitle asset) \<and> getUrl asset \<noteq> [])
     \<and> (\<forall>l. ev_licenceId ev = Some l \<longrightarrow>
           setValue (s_answers \<sigma>) ''2'' 1 (map_option VStr (ev_licenceId ev)) (''2'', 1) = Some (VStr l))"
proof -
  from assms obtain xs where xs: "a_authors asset = Some xs"
    by (auto simp: applyLogic_def goTo_page2_cases split: option.splits)
  define target where "target = (if xs = [] then ''form-author''
               else if \<not> truthy (getTitle asset) then ''form-title''
               else if getUrl asset = [] then ''form-url''
               else ''3'')"
  have g: "goTo_page2 asset = Inr target"
    by (simp add: goTo_page2_cases xs target_def)
  have pg: "pg = applyLogAndGoTo
                    (applyLogAndGoTo (on ''.a1'' Click (LicenceClick ''2'' target) empty_page)
                       ''2'' 9 ''result-note-cc0'')
                    ''2'' 10 ''15''"
    using assms by (simp add: applyLogic_def g)
  have t: "trigger getResult pg ''.a1'' Click ev \<sigma> =
         (None, \<sigma>\<lparr>s_answers := setValue (s_answers \<sigma>) ''2'' 1 (map_option VStr (ev_licenceId ev)),
                   s_trace := s_trace \<sigma> @
                     [SetValue ''2'' 1 (map_option VStr (ev_licenceId ev)),
                      Update (setValue (s_answers \<sigma>) ''2'' 1 (map_option VStr (ev_licenceId ev))),
                      Goto target]\<rparr>)"
    unfolding pg by (simp add: page_defs action_defs)
  have c: "(target = ''form-author'' \<longleftrightarrow> xs = [])
     \<and> (target = ''form-title'' \<longleftrightarrow> xs \<noteq> [] \<and> \<not> truthy (getTitle asset))
     \<and> (target = ''form-url'' \<longleftrightarrow> xs \<noteq> [] \<and> truthy (getTitle asset) \<and> getUrl asset = [])
     \<and> (target = ''3'' \<longleftrightarrow> xs \<noteq> [] \<and> truthy (getTitle asset) \<and> getUrl asset \<noteq> [])"
    by (simp add: target_def)
  have r: "\<forall>l. ev_licenceId ev = Some l \<longrightarrow>
           setValue (s_answers \<sigma>) ''2'' 1 (map_option VStr (ev_licenceId ev)) (''2'', 1) = Some (VStr l)"
    by (simp add: setValue_def)
  show ?thesis
    by (rule exI [of _ xs], rule exI [of _ target]) (simp add: xs t c setValue_def)
qed

theorem page2_answer1_witness:
  "(\<exists>pg. applyLogic (result_with (picture JNull JUndefined) False) ''2'' (picture JNull JUndefined)
            Map.empty empty_page = Inr pg
      \<and> s_trace (snd (trigger (result_with (picture JNull JUndefined) False) pg ''.a1'' Click
                        (click (Some ''cc-by-sa-3.0'')) start)) =
          [SetValue ''2'' 1 (Some (VStr ''cc-by-sa-3.0'')),
           Update [(''2'', 1) \<mapsto> VStr ''cc-by-sa-3.0''],
           Goto ''form-author''])
   \<and> (\<exists>pg. applyLogic (result_with (picture JNull JUndefined) False) ''2''
            (setAuthors (picture JNull JUndefined) (Some [''Alice''])) Map.empty empty_page = Inr pg
      \<and> s_trace (snd (trigger (result_with (picture JNull JUndefined) False) pg ''.a1'' Click
                        (click (Some ''cc-by-sa-3.0'')) start)) =
          [SetValue ''2'' 1 (Some (VStr ''cc-by-sa-3.0'')),
           Update [(''2'', 1) \<mapsto> VStr ''cc-by-sa-3.0''],
           Goto ''3''])"
proof -
  let ?gr = "result_with (picture JNull JUndefined) False"
  let ?a = "picture JNull JUndefined"
  let ?b = "setAuthors (picture JNull JUndefined) (Some [''Alice''])"
  let ?ev = "click (Some ''cc-by-sa-3.0'')"
  have fb: "a_authors ?b = Some [''Alice'']" "getTitle ?b = JStr ''A''" "getUrl ?b \<noteq> []"
    by (simp_all add: setAuthors_def getTitle_def picture_fields getUrl_def)
  obtain pa where pa: "applyLogic ?gr ''2'' ?a Map.empty empty_page = Inr pa"
    by (simp add: applyLogic_def goTo_page2_cases picture_fields)
  obtain pb where pb: "applyLogic ?gr ''2'' ?b Map.empty empty_page = Inr pb"
    by (simp add: applyLogic_def goTo_page2_cases fb)
  from page2_answer1 [OF pa, of ?ev start]
  have 1: "s_trace (snd (trigger ?gr pa ''.a1'' Click ?ev start)) =
          [SetValue ''2'' 1 (Some (VStr ''cc-by-sa-3.0'')),
           Update [(''2'', 1) \<mapsto> VStr ''cc-by-sa-3.0''],
           Goto ''form-author'']"
    by (auto simp: picture_fields start_def click_def setValue_def)
  from page2_answer1 [OF pb, of ?ev start]
  have 2: "s_trace (snd (trigger ?gr pb ''.a1'' Click ?ev start)) =
          [SetValue ''2'' 1 (Some (VStr ''cc-by-sa-3.0'')),
           Update [(''2'', 1) \<mapsto> VStr ''cc-by-sa-3.0''],
           Goto ''3'']"
    by (auto simp: fb start_def click_def setValue_def)
  from pa 1 pb 2 show ?thesis by simp
qed

text \<open>
  Claim C3. On page 3 a click on answer 3 records answer 3, triggers the update and then
  goes to page 7 when the licence of the asset in the result of the questionnaire state is
  in the group \<open>cc2de\<close>, and to \<open>result-note-privateUse\<close> when it is not. Nothing else
  enters the choice: the asset of the page, the answers recorded before, the event and the
  flags of the result are arbitrary.
\<close>

theorem page3_answer3:
  assumes "getLicence (res_asset (getResult (setValue (s_answers \<sigma>) ''3'' 3 None))) = JObj l"
  shows "\<exists>pg. applyLogic getResult ''3'' asset st empty_page = Inr pg
     \<and> handlers_of pg ''.a3'' Click = [Page3Answer3 ''3'']
     \<and> trigger getResult pg ''.a3'' Click ev \<sigma> =
         (None, \<sigma>\<lparr>s_answers := setValue (s_answers \<sigma>) ''3'' 3 None,
                   s_trace := s_trace \<sigma> @
                     [SetValue ''3'' 3 None, Update (setValue (s_answers \<sigma>) ''3'' 3 None),
                      Goto (if isInGroup l ''cc2de'' then ''7'' else ''result-note-privateUse'')]\<rparr>)
     \<and> setValue (s_answers \<sigma>) ''3'' 3 None (''3'', 3) = Some (VBool True)"
  using assms by (simp add: page_defs action_defs Let_def setValue_def)

theorem page3_answer3_witness:
  "getLicence (res_asset (result_with (picture (JObj (LICENCES ! 2)) JUndefined) False
       (setValue (s_answers start) ''3'' 3 None))) = JObj (LICENCES ! 2)
   \<and> isInGroup (LICENCES ! 2) ''cc2de''
   \<and> (\<exists>pg. applyLogic (result_with (picture (JObj (LICENCES ! 2)) JUndefined) False) ''3''
              (picture JNull JUndefined) Map.empty empty_page = Inr pg
        \<and> s_trace (snd (trigger (result_with (picture (JObj (LICENCES ! 2)) JUndefined) False) pg
                          ''.a3'' Click (click None) start)) =
            [SetValue ''3'' 3 None, Update [(''3'', 3) \<mapsto> VBool True], Goto ''7''])
   \<and> getLicence (res_asset (result_with (picture (JObj (LICENCES ! 3)) JUndefined) False
       (setValue (s_answers start) ''3'' 3 None))) = JObj (LICENCES ! 3)
   \<and> \<not> isInGroup (LICENCES ! 3) ''cc2de''
   \<and> (\<exists>pg. applyLogic (result_with (picture (JObj (LICENCES ! 3)) JUndefined) False) ''3''
              (picture JNull JUndefined) Map.empty empty_page = Inr pg
        \<and> s_trace (snd (trigger (result_with (picture (JObj (LICENCES ! 3)) JUndefined) False) pg
                          ''.a3'' Click (click None) start)) =
            [SetValue ''3'' 3 None, Update [(''3'', 3) \<mapsto> VBool True],
             Goto ''result-note-privateUse''])"
proof -
  let ?g2 = "result_with (picture (JObj (LICENCES ! 2)) JUndefined) False"
  let ?g3 = "result_with (picture (JObj (LICENCES ! 3)) JUndefined) False"
  have l2: "getLicence (res_asset (?g2 (setValue (s_answers start) ''3'' 3 None))) = JObj (LICENCES ! 2)"
    and l3: "getLicence (res_asset (?g3 (setValue (s_answers start) ''3'' 3 None))) = JObj (LICENCES ! 3)"
    by (simp_all add: result_with_def getLicence_def picture_fields)
  have i2: "isInGroup (LICENCES ! 2) ''cc2de''" and i3: "\<not> isInGroup (LICENCES ! 3) ''cc2de''"
    by (simp_all add: isInGroup_def LICENCES_def Licence_def)
  from page3_answer3 [where getResult = ?g2 and \<sigma> = start and l = "LICENCES ! 2", OF l2,
      of "picture JNull JUndefined" Map.empty "click None"] i2
  have 2: "\<exists>pg. applyLogic ?g2 ''3'' (picture JNull JUndefined) Map.empty empty_page = Inr pg
        \<and> s_trace (snd (trigger ?g2 pg ''.a3'' Click (click None) start)) =
            [SetValue ''3'' 3 None, Update [(''3'', 3) \<mapsto> VBool True], Goto ''7'']"
    by (auto simp: start_def setValue_def)
  from page3_answer3 [where getResult = ?g3 and \<sigma> = start and l = "LICENCES ! 3", OF l3,
      of "picture JNull JUndefined" Map.empty "click None"] i3
  have 3: "\<exists>pg. applyLogic ?g3 ''3'' (picture JNull JUndefined) Map.empty empty_page = Inr pg
        \<and> s_trace (snd (trigger ?g3 pg ''.a3'' Click (click None) start)) =
            [SetValue ''3'' 3 None, Update [(''3'', 3) \<mapsto> VBool True], Goto ''result-note-privateUse'']"
    by (auto simp: start_def setValue_def)
  from l2 i2 2 l3 i3 3 show ?thesis by simp
qed

text \<open>
  The licences of the registry in the group \<open>cc2de\<close>, and what the handler does when
  the asset has no licence: the answer is recorded, the update triggered, and reading
  \<open>isInGroup\<close> of \<open>null\<close> throws.
\<close>

lemma cc2de_licences:
  "map lic_id (filter (\<lambda>l. isInGroup l ''cc2de'') LICENCES) = [''cc-by-2.0-de'', ''cc-by-sa-2.0-de'']"
  by (simp add: LICENCES_def Licence_def isInGroup_def)

lemma page3_answer3_no_licence:
  assumes "getLicence (res_asset (getResult (setValue (s_answers \<sigma>) ''3'' 3 None))) = JNull"
  shows "run_handler getResult (Page3Answer3 ''3'') ev \<sigma> =
     (Some TypeError,
      \<sigma>\<lparr>s_answers := setValue (s_answers \<sigma>) ''3'' 3 None,
        s_trace := s_trace \<sigma> @
          [SetValue ''3'' 3 None, Update (setValue (s_answers \<sigma>) ''3'' 3 None)]\<rparr>)"
  using assms by (simp add: action_defs Let_def)

text \<open>
  Claim C5. A handler attached by \<open>_applyLogAndGoTo\<close> first writes the answer into the
  questionnaire state, then triggers \<open>update\<close> and then \<open>goto\<close>. The state that the
  update carries already holds the answer, recorded as true.
\<close>

theorem log_update_goto_order:
  "run_handler getResult (LogAndGoTo currentPage answer toPage) ev \<sigma> =
     (None, \<sigma>\<lparr>s_answers := setValue (s_answers \<sigma>) currentPage answer None,
               s_trace := s_trace \<sigma> @
                 [SetValue currentPage answer None,
                  Update (setValue (s_answers \<sigma>) currentPage answer None),
                  Goto toPage]\<rparr>)
   \<and> trigger getResult (applyLogAndGoTo empty_page currentPage answer toPage)
        (''.a'' @ string_of_nat answer) Click ev \<sigma> =
       run_handler getResult (LogAndGoTo currentPage answer toPage) ev \<sigma>
   \<and> setValue (s_answers \<sigma>) currentPage answer None (currentPage, answer) = Some (VBool True)"
  by (simp add: applyLogAndGoTo_def on_def empty_page_def handlers_of_def trigger_def
      action_defs setValue_def)

text \<open>
  Claim C7. On page 3, when the flag for attribution although the use is exceptional is set
  as the page is set up, the elements of answer 4 get the class \<open>disabled\<close>, no handler of
  any event is attached to them, no handler of the page records answer 4, and a click on
  them does nothing. When the flag is not set, a click on answer 4 records it and goes to
  page 5.
\<close>

theorem page3_answer4:
  "\<exists>pg. applyLogic getResult ''3'' asset st empty_page = Inr pg
     \<and> (res_attributionAlthoughExceptionalUse (getResult st) \<longrightarrow>
          ''.a4'' \<in> set (p_disabled pg)
          \<and> (\<forall>k. handlers_of pg ''.a4'' k = [])
          \<and> (\<forall>b\<in>set (p_bindings pg). \<forall>c t. b_handler b \<noteq> LogAndGoTo c 4 t)
          \<and> trigger getResult pg ''.a4'' Click ev \<sigma> = (None, \<sigma>))
     \<and> (\<not> res_attributionAlthoughExceptionalUse (getResult st) \<longrightarrow>
          ''.a4'' \<notin> set (p_disabled pg)
          \<and> trigger getResult pg ''.a4'' Click ev \<sigma> =
              (None, \<sigma>\<lparr>s_answers := setValue (s_answers \<sigma>) ''3'' 4 None,
                        s_trace := s_trace \<sigma> @
                          [SetValue ''3'' 4 None, Update (setValue (s_answers \<sigma>) ''3'' 4 None),
                           Goto ''5'']\<rparr>)
          \<and> setValue (s_answers \<sigma>) ''3'' 4 None (''3'', 4) = Some (VBool True))"
  by (simp add: page_defs action_defs Let_def setValue_def)

theorem page3_answer4_witness:
  "res_attributionAlthoughExceptionalUse (result_with (picture JNull JUndefined) True Map.empty)
   \<and> (\<exists>pg. applyLogic (result_with (picture JNull JUndefined) True) ''3'' (picture JNull JUndefined)
              Map.empty empty_page = Inr pg
        \<and> ''.a4'' \<in> set (p_disabled pg)
        \<and> trigger (result_with (picture JNull JUndefined) True) pg ''.a4'' Click (click None) start
            = (None, start))
   \<and> \<not> res_attributionAlthoughExceptionalUse (result_with (picture JNull JUndefined) False Map.empty)
   \<and> (\<exists>pg. applyLogic (result_with (picture JNull JUndefined) False) ''3'' (picture JNull JUndefined)
              Map.empty empty_page = Inr pg
        \<and> ''.a4'' \<notin> set (p_disabled pg)
        \<and> s_trace (snd (trigger (result_with (picture JNull JUndefined) False) pg ''.a4'' Click
                          (click None) start)) =
            [SetValue ''3'' 4 None, Update [(''3'', 4) \<mapsto> VBool True], Goto ''5''])"
proof -
  let ?a = "picture JNull JUndefined"
  have t: "res_attributionAlthoughExceptionalUse (result_with ?a True Map.empty)"
    and f: "\<not> res_attributionAlthoughExceptionalUse (result_with ?a False Map.empty)"
    by (simp_all add: result_with_def)
  from page3_answer4 [of "result_with ?a True" ?a Map.empty "click None" start] t
  have 1: "\<exists>pg. applyLogic (result_with ?a True) ''3'' ?a Map.empty empty_page = Inr pg
        \<and> ''.a4'' \<in> set (p_disabled pg)
        \<and> trigger (result_with ?a True) pg ''.a4'' Click (click None) start = (None, start)"
    by auto
  from page3_answer4 [of "result_with ?a False" ?a Map.empty "click None" start] f
  have 2: "\<exists>pg. applyLogic (result_with ?a False) ''3'' ?a Map.empty empty_page = Inr pg
        \<and> ''.a4'' \<notin> set (p_disabled pg)
        \<and> s_trace (snd (trigger (result_with ?a False) pg ''.a4'' Click (click None) start)) =
            [SetValue ''3'' 4 None, Update [(''3'', 4) \<mapsto> VBool True], Goto ''5'']"
    by (auto simp: start_def setValue_def)
  from t 1 f 2 show ?thesis by simp
qed

section \<open>The input of a free-text page\<close>

text \<open>
  What \<open>evaluateInput\<close> does in each of its two branches. With a text in the field it
  writes answer 1 and touches no other entry of the store; with an empty field it removes
  answer 1 and writes answer 2.
\<close>

lemma evaluateInput_text:
  "trim (s_input \<sigma>) \<noteq> [] \<Longrightarrow>
     s_answers (evaluateInput p \<sigma>) = (s_answers \<sigma>)((p, 1) \<mapsto> VStr (trim (s_input \<sigma>)))
     \<and> s_trace (evaluateInput p \<sigma>) =
         s_trace \<sigma> @ [SetValue p 1 (Some (VStr (trim (s_input \<sigma>)))),
                        Update ((s_answers \<sigma>)((p, 1) \<mapsto> VStr (trim (s_input \<sigma>))))]"
  by (simp add: action_defs setValue_def Let_def)

lemma evaluateInput_empty:
  "trim (s_input \<sigma>) = [] \<Longrightarrow>
     s_answers (evaluateInput p \<sigma>) = (s_answers \<sigma>)((p, 1) := None, (p, 2) \<mapsto> VBool True)
     \<and> s_trace (evaluateInput p \<sigma>) =
         s_trace \<sigma> @ [DeleteValue p 1, SetValue p 2 None,
                        Update ((s_answers \<sigma>)((p, 1) := None, (p, 2) \<mapsto> VBool True))]"
  by (simp add: action_defs setValue_def deleteValue_def Let_def)

lemma trim_Alice: "trim ''Alice'' = ''Alice''" "trim [] = []"
  by (simp_all add: trim_def white_space_def)

lemma emptied_typed:
  "s_answers emptied = [(''form-author'', 2) \<mapsto> VBool True]"
  "s_answers typed = [(''form-author'', 2) \<mapsto> VBool True]"
  "s_input typed = ''Alice''"
  by (simp_all add: typed_def emptied_def start_def evaluateInput_empty trim_Alice)

text \<open>
  On each of the five free-text pages the handler of a keystroke in the input field is
  \<open>evaluateInput\<close>.
\<close>

lemma free_text_keyup:
  assumes "p = ''form-author'' \<or> p = ''form-title'' \<or> p = ''form-url'' \<or> p = ''9'' \<or> p = ''13''"
  shows "\<exists>pg. applyLogic getResult p asset st empty_page = Inr pg
     \<and> handlers_of pg ''input.a1'' KeyupEvent = [Keyup p]
     \<and> trigger getResult pg ''input.a1'' KeyupEvent ev \<sigma> = (None, evaluateInput p \<sigma>)"
  using assms by (elim disjE) (simp_all add: page_defs)

text \<open>
  Claim C4, as it is stated, fails. On the page \<open>form-author\<close> a keystroke has left the
  field empty, so answer 2 is recorded, and then \<open>Alice\<close> is typed. The trimmed text is
  not empty; the keystroke records it as answer 1, and answer 2 is still recorded.
\<close>

theorem keystroke_keeps_answer_2_counterexample:
  "trim (s_input typed) \<noteq> []
   \<and> s_answers typed (''form-author'', 2) = Some (VBool True)
   \<and> s_answers (evaluateInput ''form-author'' typed) (''form-author'', 1) = Some (VStr ''Alice'')
   \<and> s_answers (evaluateInput ''form-author'' typed) (''form-author'', 2) = Some (VBool True)
   \<and> s_answers (evaluateInput ''form-author'' typed) (''form-author'', 2) \<noteq> None"
  by (simp add: evaluateInput_text emptied_typed trim_Alice)

text \<open>
  Claim C4, amended. On every free-text page a keystroke in the input field runs
  \<open>evaluateInput\<close>. When the trimmed text is not empty, the text is recorded as the value
  of answer 1 and every other entry of the store, answer 2 among them, stays as it is.
  When the trimmed text is empty, answer 1 is removed and answer 2 is recorded as true.
\<close>

theorem keystroke_on_free_text_page:
  assumes "p = ''form-author'' \<or> p = ''form-title'' \<or> p = ''form-url'' \<or> p = ''9'' \<or> p = ''13''"
  shows "\<exists>pg. applyLogic getResult p asset st empty_page = Inr pg
     \<and> trigger getResult pg ''input.a1'' KeyupEvent ev \<sigma> = (None, evaluateInput p \<sigma>)
     \<and> (trim (s_input \<sigma>) \<noteq> [] \<longrightarrow>
          s_answers (evaluateInput p \<sigma>) = (s_answers \<sigma>)((p, 1) \<mapsto> VStr (trim (s_input \<sigma>)))
          \<and> s_answers (evaluateInput p \<sigma>) (p, 1) = Some (VStr (trim (s_input \<sigma>)))
          \<and> s_answers (evaluateInput p \<sigma>) (p, 2) = s_answers \<sigma> (p, 2))
     \<and> (trim (s_input \<sigma>) = [] \<longrightarrow>
          s_answers (evaluateInput p \<sigma>) = (s_answers \<sigma>)((p, 1) := None, (p, 2) \<mapsto> VBool True)
          \<and> s_answers (evaluateInput p \<sigma>) (p, 1) = None
          \<and> s_answers (evaluateInput p \<sigma>) (p, 2) = Some (VBool True))"
proof -
  from free_text_keyup [OF assms, of getResult asset st ev \<sigma>] obtain pg where
    pg: "applyLogic getResult p asset st empty_page = Inr pg"
      "trigger getResult pg ''input.a1'' KeyupEvent ev \<sigma> = (None, evaluateInput p \<sigma>)"
    by auto
  have t: "trim (s_input \<sigma>) \<noteq> [] \<longrightarrow>
          s_answers (evaluateInput p \<sigma>) = (s_answers \<sigma>)((p, 1) \<mapsto> VStr (trim (s_input \<sigma>)))
          \<and> s_answers (evaluateInput p \<sigma>) (p, 1) = Some (VStr (trim (s_input \<sigma>)))
          \<and> s_answers (evaluateInput p \<sigma>) (p, 2) = s_answers \<sigma> (p, 2)"
    by (simp add: evaluateInput_text)
  have e: "trim (s_input \<sigma>) = [] \<longrightarrow>
          s_answers (evaluateInput p \<sigma>) = (s_answers \<sigma>)((p, 1) := None, (p, 2) \<mapsto> VBool True)
          \<and> s_answers (evaluateInput p \<sigma>) (p, 1) = None
          \<and> s_answers (evaluateInput p \<sigma>) (p, 2) = Some (VBool True)"
    by (simp add: evaluateInput_empty)
  show ?thesis
    by (rule exI [of _ pg]) (rule conjI [OF pg(1) conjI [OF pg(2) conjI [OF t e]]])
qed

theorem keystroke_on_free_text_page_witness:
  "trim (s_input typed) \<noteq> []
   \<and> s_answers (evaluateInput ''form-author'' typed) =
       [(''form-author'', 2) \<mapsto> VBool True, (''form-author'', 1) \<mapsto> VStr ''Alice'']
   \<and> trim (s_input start) = []
   \<and> s_answers (evaluateInput ''form-author'' start) = [(''form-author'', 2) \<mapsto> VBool True]"
proof -
  have p: "''form-author'' = ''form-author'' \<or> ''form-author'' = ''form-title''
      \<or> ''form-author'' = ''form-url'' \<or> ''form-author'' = ''9'' \<or> ''form-author'' = ''13''"
    by simp
  have a: "trim (s_input typed) \<noteq> []" and b: "trim (s_input start) = []"
    by (simp_all add: emptied_typed trim_Alice start_def)
  from keystroke_on_free_text_page [OF p, of "result_with (picture JNull JUndefined) False"
      "picture JNull JUndefined" Map.empty "key 69" typed] a
  have 1: "s_answers (evaluateInput ''form-author'' typed) =
       [(''form-author'', 2) \<mapsto> VBool True, (''form-author'', 1) \<mapsto> VStr ''Alice'']"
    by (auto simp: emptied_typed trim_Alice)
  from keystroke_on_free_text_page [OF p, of "result_with (picture JNull JUndefined) False"
      "picture JNull JUndefined" Map.empty "key 8" start] b
  have 2: "s_answers (evaluateInput ''form-author'' start) = [(''form-author'', 2) \<mapsto> VBool True]"
    by (auto simp: start_def)
  from a 1 b 2 show ?thesis by simp
qed

end
